theory Spec2Isabelle
  imports Complex_Main
begin

section \<open>JavaScript strings\<close>

text \<open>
  A JavaScript string is modelled as a \<^typ>\<open>string\<close>: the bytes of its UTF-8 encoding,
  so a character of ASCII is one \<^typ>\<open>char\<close> and any other character is two to four.
  The routes inspect braces, back-ticks, the letters of \<open>json\<close> and \<open>timeout\<close>, and white
  space.
\<close>

definition startsWith :: "string \<Rightarrow> string \<Rightarrow> bool" where
  "startsWith s p = (take (length p) s = p)"

definition endsWith :: "string \<Rightarrow> string \<Rightarrow> bool" where
  "endsWith s p = startsWith (rev s) (rev p)"

text \<open>
  The characters that \<^verbatim>\<open>String.prototype.trim\<close> removes, each as its UTF-8 bytes: the
  white space of ECMAScript (U+0009, U+000B, U+000C, U+0020, U+00A0, U+1680, U+2000 to
  U+200A, U+202F, U+205F, U+3000, U+FEFF) and its line terminators (U+000A, U+000D,
  U+2028, U+2029).
\<close>

definition whiteSpace :: "string list" where
  "whiteSpace =
     [[CHR 0x09], [CHR 0x0A], [CHR 0x0B], [CHR 0x0C], [CHR 0x0D], [CHR 0x20],
      [CHR 0xC2, CHR 0xA0],
      [CHR 0xE1, CHR 0x9A, CHR 0x80],
      [CHR 0xE2, CHR 0x80, CHR 0x80], [CHR 0xE2, CHR 0x80, CHR 0x81],
      [CHR 0xE2, CHR 0x80, CHR 0x82], [CHR 0xE2, CHR 0x80, CHR 0x83],
      [CHR 0xE2, CHR 0x80, CHR 0x84], [CHR 0xE2, CHR 0x80, CHR 0x85],
      [CHR 0xE2, CHR 0x80, CHR 0x86], [CHR 0xE2, CHR 0x80, CHR 0x87],
      [CHR 0xE2, CHR 0x80, CHR 0x88], [CHR 0xE2, CHR 0x80, CHR 0x89],
      [CHR 0xE2, CHR 0x80, CHR 0x8A],
      [CHR 0xE2, CHR 0x80, CHR 0xA8], [CHR 0xE2, CHR 0x80, CHR 0xA9],
      [CHR 0xE2, CHR 0x80, CHR 0xAF],
      [CHR 0xE2, CHR 0x81, CHR 0x9F],
      [CHR 0xE3, CHR 0x80, CHR 0x80],
      [CHR 0xEF, CHR 0xBB, CHR 0xBF]]"

text \<open>
  \<open>wsLength ws s\<close> is the number of bytes of the character of \<open>ws\<close> that \<open>s\<close> starts
  with, 0 when it starts with none; \<open>stripStart ws s\<close> removes such characters from the
  start of \<open>s\<close> as long as there is one. \<open>trim\<close> strips the white space from the start,
  and from the end by stripping the reversed characters from the start of the reversed
  string.
\<close>

definition wsLength :: "string list \<Rightarrow> string \<Rightarrow> nat" where
  "wsLength ws s =
     (case List.find (\<lambda>w. startsWith s w) ws of None \<Rightarrow> 0 | Some w \<Rightarrow> length w)"

function stripStart :: "string list \<Rightarrow> string \<Rightarrow> string" where
  "stripStart ws s =
     (if wsLength ws s = 0 then s else stripStart ws (drop (wsLength ws s) s))"
  by pat_completeness auto
termination
proof (relation "measure (\<lambda>(ws, s). length s)")
  show "wf (measure (\<lambda>(ws, s). length s))" by simp
next
  fix ws :: "string list" and s :: string
  assume n: "wsLength ws s \<noteq> 0"
  then obtain w where "List.find (\<lambda>w. startsWith s w) ws = Some w" "length w \<noteq> 0"
    by (auto simp: wsLength_def split: option.splits)
  then have "startsWith s w" "w \<noteq> []" by (auto simp: find_Some_iff)
  then have "s \<noteq> []" by (auto simp: startsWith_def)
  with n show "((ws, drop (wsLength ws s) s), (ws, s)) \<in> measure (\<lambda>(ws, s). length s)"
    by simp
qed

declare stripStart.simps [simp del]

definition trim :: "string \<Rightarrow> string" where
  "trim s = rev (stripStart (map rev whiteSpace) (rev (stripStart whiteSpace s)))"

fun includesStr :: "string \<Rightarrow> string \<Rightarrow> bool" where
  "includesStr [] p = (p = [])"
| "includesStr (c # cs) p = (startsWith (c # cs) p \<or> includesStr cs p)"

definition lowerChar :: "char \<Rightarrow> char" where
  "lowerChar c =
     (let n = (of_char c :: nat) in if 65 \<le> n \<and> n \<le> 90 then char_of (n + 32) else c)"

definition toLowerCase :: "string \<Rightarrow> string" where
  "toLowerCase s = map lowerChar s"

section \<open>Instants, time zones and day keys\<close>

text \<open>
  \<open>toLowerCase\<close> maps the capitals of ASCII. No other character becomes a letter of
  \<open>timeout\<close> next to the letter that follows it there, so the one test the routes make on
  a lowered string, whether it includes \<open>timeout\<close>, reads the same.
\<close>

text \<open>
  An instant is the time value of a \<^verbatim>\<open>Date\<close>: milliseconds since the epoch, an
  \<^typ>\<open>int\<close>. A time zone is what the platform knows about it: the offset from UTC in
  force at an instant (\<open>utcOffset\<close>, used to read an instant as local time) and the offset
  used to read a local wall-clock time as an instant (\<open>localOffset\<close>, used by
  \<^verbatim>\<open>new Date("YYYY-MM-DDT00:00:00")\<close> and by \<^verbatim>\<open>setDate\<close>). The time-zone data
  of \<^verbatim>\<open>Intl.DateTimeFormat\<close> and of the host are not part of the repository, so both
  zones are parameters of the functions below.
\<close>

record zone =
  utcOffset :: "int \<Rightarrow> int"
  localOffset :: "int \<Rightarrow> int"

definition msPerDay :: int where
  "msPerDay = 1000 * 60 * 60 * 24"

definition localTime :: "zone \<Rightarrow> int \<Rightarrow> int" where
  "localTime z t = t + utcOffset z t"

definition utcOfLocal :: "zone \<Rightarrow> int \<Rightarrow> int" where
  "utcOfLocal z w = w - localOffset z w"

text \<open>A zone whose offset never changes (UTC is \<open>fixedZone 0\<close>).\<close>

definition fixedZone :: "int \<Rightarrow> zone" where
  "fixedZone off = \<lparr>utcOffset = (\<lambda>_. off), localOffset = (\<lambda>_. off)\<rparr>"

text \<open>
  Europe/Madrid during 2024: UTC+1, and UTC+2 from 2024-03-31T01:00:00Z (local 02:00
  becomes 03:00) until 2024-10-27T01:00:00Z (local 03:00 becomes 02:00). A local time
  that the change skips or repeats is read with the offset in force before the change.
\<close>

definition europeMadrid2024 :: zone where
  "europeMadrid2024 =
     \<lparr>utcOffset = (\<lambda>t. if 1711846800000 \<le> t \<and> t < 1729990800000 then 7200000 else 3600000),
      localOffset = (\<lambda>w. if 1711854000000 \<le> w \<and> w < 1729998000000 then 7200000 else 3600000)\<rparr>"

text \<open>
  What \<open>dayKeyMadrid\<close> and \<open>computeStreak\<close> can be handed: a falsy value
  (\<^verbatim>\<open>null\<close>, \<^verbatim>\<open>undefined\<close>), a value whose \<^verbatim>\<open>Date\<close> has the time value NaN,
  or a value whose \<^verbatim>\<open>Date\<close> is the instant \<open>t\<close>.
\<close>

datatype jsdate = Missing | InvalidDate | At int

text \<open>
  The key \<^verbatim>\<open>"YYYY-MM-DD"\<close> of a civil day is represented by the day's ordinal, the
  number of days from 1970-01-01 to it. For the four-digit years the application lives
  in, two keys are equal exactly when their ordinals are, and the order of the strings
  (the one \<^verbatim>\<open>Array.prototype.sort\<close> uses) is the order of the ordinals.
\<close>

definition dayKeyMadrid :: "zone \<Rightarrow> jsdate \<Rightarrow> int option" where
  "dayKeyMadrid madrid date =
     (case date of
        Missing \<Rightarrow> None
      | InvalidDate \<Rightarrow> None
      | At t \<Rightarrow> Some (localTime madrid t div msPerDay))"

text \<open>A \<^verbatim>\<open>Set\<close> keeps its elements in the order of their first insertion.\<close>

definition setAdd :: "'a \<Rightarrow> 'a list \<Rightarrow> 'a list" where
  "setAdd k s = (if k \<in> set s then s else s @ [k])"

fun collectKeys :: "zone \<Rightarrow> jsdate list \<Rightarrow> int list \<Rightarrow> int list" where
  "collectKeys madrid [] s = s"
| "collectKeys madrid (dt # dates) s =
     collectKeys madrid dates
       (case dayKeyMadrid madrid dt of None \<Rightarrow> s | Some k \<Rightarrow> setAdd k s)"

text \<open>
  \<^verbatim>\<open>new Date(days[i] + "T00:00:00")\<close>: a date-time without an offset is read as local time
  of the host, so the result is the instant of the host's midnight of that civil day.
\<close>

definition localMidnight :: "zone \<Rightarrow> int \<Rightarrow> int" where
  "localMidnight host k = utcOfLocal host (k * msPerDay)"

text \<open>
  The loop of \<open>computeStreak\<close>, on the days from the last index down. The quotient
  \<^verbatim>\<open>(a - b) / 86400000\<close> of two integers of milliseconds is the double 1 exactly when
  \<open>a - b\<close> is 86400000, which is what the model tests.
\<close>

fun walkBack :: "zone \<Rightarrow> int list \<Rightarrow> nat \<Rightarrow> nat" where
  "walkBack host (a # b # rest) streak =
     (if localMidnight host a - localMidnight host b = msPerDay
      then walkBack host (b # rest) (streak + 1)
      else streak)"
| "walkBack host [a] streak = streak"
| "walkBack host [] streak = streak"

definition computeStreak :: "zone \<Rightarrow> zone \<Rightarrow> jsdate list \<Rightarrow> nat" where
  "computeStreak madrid host dates =
     (let s = collectKeys madrid dates [] in
      if length s = 0 then 0
      else walkBack host (rev (sort s)) 1)"

section \<open>Stored documents\<close>

text \<open>
  Letters outside ASCII that the texts of the routes use, as UTF-8.
\<close>

definition a_acute :: string where "a_acute = [CHR 0xC3, CHR 0xA1]"
definition i_acute :: string where "i_acute = [CHR 0xC3, CHR 0xAD]"
definition o_acute :: string where "o_acute = [CHR 0xC3, CHR 0xB3]"
definition u_acute :: string where "u_acute = [CHR 0xC3, CHR 0xBA]"

text \<open>
  An exercise as the routes read it (\<^verbatim>\<open>_id\<close>, \<^verbatim>\<open>titulo\<close>, \<^verbatim>\<open>concepto\<close>). A text field
  that is absent is the empty string: the routes only test such a field for truthiness,
  and both are falsy. Every stored document has a non-empty \<^verbatim>\<open>_id\<close>.
\<close>

record ejercicio =
  ej_id :: string
  ej_titulo :: string
  ej_concepto :: string

text \<open>
  \<^verbatim>\<open>ejercicio_id\<close> of a result: \<^verbatim>\<open>null\<close> (the exercise no longer exists), the bare
  identifier, or the exercise that \<^verbatim>\<open>populate\<close> put in its place.
\<close>

datatype ejercicio_ref = NoRef | RawId string | Populated ejercicio

record errorTag =
  etiqueta :: string
  texto :: string

text \<open>
  The fields the finalize route gives a new result, and the stored result with its
  dates. A date field of a stored document holds a valid date (its instant) or nothing.
  \<open>numMensajes\<close> absent reads as 0 (\<^verbatim>\<open>r.numMensajes || 0\<close>).
\<close>

record resultadoFields =
  usuario_id :: string
  ejercicio_id :: ejercicio_ref
  interaccion_id :: string
  resueltoALaPrimera :: bool
  numMensajes :: nat
  analisisIA :: "string option"
  consejoIA :: "string option"
  errores :: "errorTag list"

record resultado = resultadoFields +
  fecha :: "int option"
  createdAt :: "int option"
  updatedAt :: "int option"

datatype error = StorageFailure

section \<open>The progress route\<close>

text \<open>
  A plain object used as a dictionary, \<^verbatim>\<open>eficiencia\<close> and \<^verbatim>\<open>mapaErrores\<close>, is an
  association list in the order in which the keys were first written: that is the order
  of \<^verbatim>\<open>Object.keys\<close> and \<^verbatim>\<open>Object.values\<close> for the keys these objects get (concept
  names and tag labels such as \<^verbatim>\<open>AC13\<close> and \<^verbatim>\<open>AC_UNK\<close>, none of them an array index
  or a property of \<^verbatim>\<open>Object.prototype\<close>).
  \<open>upsert k v0 f\<close> is \<^verbatim>\<open>if (!obj[k]) obj[k] = v0; obj[k] = f(obj[k])\<close>.
\<close>

fun upsert :: "'k \<Rightarrow> 'v \<Rightarrow> ('v \<Rightarrow> 'v) \<Rightarrow> ('k \<times> 'v) list \<Rightarrow> ('k \<times> 'v) list" where
  "upsert k v0 f [] = [(k, f v0)]"
| "upsert k v0 f ((k', v) # kvs) =
     (if k' = k then (k', f v) # kvs else (k', v) # upsert k v0 f kvs)"

definition conceptoDe :: "ejercicio_ref \<Rightarrow> string" where
  "conceptoDe ref = (case ref of Populated e \<Rightarrow> ej_concepto e | _ \<Rightarrow> [])"

definition tituloDe :: "ejercicio_ref \<Rightarrow> string" where
  "tituloDe ref = (case ref of Populated e \<Rightarrow> ej_titulo e | _ \<Rightarrow> [])"

subsection \<open>A, B: interactions\<close>

text \<open>
  The means are quotients of natural numbers. The model keeps them exact; the doubles
  of the code are these quotients rounded.
\<close>

definition totalInteracciones :: "resultado list \<Rightarrow> nat" where
  "totalInteracciones rs = foldl (\<lambda>sum r. sum + numMensajes r) 0 rs"

definition interaccionesMedias :: "resultado list \<Rightarrow> rat" where
  "interaccionesMedias rs = of_nat (totalInteracciones rs) / of_nat (length rs)"

definition eficienciaPaso :: "resultado \<Rightarrow> (string \<times> nat \<times> nat) list \<Rightarrow> (string \<times> nat \<times> nat) list" where
  "eficienciaPaso r acc =
     (let concepto = conceptoDe (ejercicio_id r) in
      if concepto = [] then acc
      else upsert concepto (0, 0) (\<lambda>(total, count). (total + numMensajes r, count + 1)) acc)"

definition eficiencia :: "resultado list \<Rightarrow> (string \<times> nat \<times> nat) list" where
  "eficiencia rs = fold eficienciaPaso rs []"

record eficienciaItem =
  ef_concepto :: string
  interacciones :: rat

definition eficienciaPorConcepto :: "resultado list \<Rightarrow> eficienciaItem list" where
  "eficienciaPorConcepto rs =
     map (\<lambda>(c, total, count). \<lparr>ef_concepto = c, interacciones = of_nat total / of_nat count\<rparr>)
       (eficiencia rs)"

subsection \<open>C: the weekly summary\<close>

text \<open>
  \<^verbatim>\<open>haceUnaSemana.setDate(hoy.getDate() - 7)\<close> moves the local wall-clock time of the
  host seven calendar days back and reads it as an instant again. Both readings of the
  clock (\<^verbatim>\<open>hoy\<close> and \<^verbatim>\<open>haceUnaSemana\<close> before the change) are the same instant \<open>hoy\<close>.
\<close>

definition haceUnaSemana :: "zone \<Rightarrow> int \<Rightarrow> int" where
  "haceUnaSemana host hoy = utcOfLocal host (localTime host hoy - 7 * msPerDay)"

definition enSemana :: "zone \<Rightarrow> int \<Rightarrow> resultado \<Rightarrow> bool" where
  "enSemana host hoy r =
     (case fecha r of None \<Rightarrow> False | Some t \<Rightarrow> haceUnaSemana host hoy \<le> t)"

definition resultadosSemana :: "zone \<Rightarrow> int \<Rightarrow> resultado list \<Rightarrow> resultado list" where
  "resultadosSemana host hoy rs = filter (enSemana host hoy) rs"

definition newSet :: "'a list \<Rightarrow> 'a list" where
  "newSet xs = fold setAdd xs []"

definition conceptosSemana :: "zone \<Rightarrow> int \<Rightarrow> resultado list \<Rightarrow> string list" where
  "conceptosSemana host hoy rs =
     newSet (filter (\<lambda>c. c \<noteq> [])
       (map (\<lambda>r. conceptoDe (ejercicio_id r)) (resultadosSemana host hoy rs)))"

text \<open>
  The identifier of the exercise of a result: \<^verbatim>\<open>_id.toString()\<close> of the populated
  exercise, else \<^verbatim>\<open>toString()\<close> of the bare identifier, else nothing (the empty string
  here, which the \<^verbatim>\<open>filter(Boolean)\<close> that follows drops like \<^verbatim>\<open>null\<close>).
\<close>

definition idDe :: "ejercicio_ref \<Rightarrow> string" where
  "idDe ref = (case ref of NoRef \<Rightarrow> [] | RawId s \<Rightarrow> s | Populated e \<Rightarrow> ej_id e)"

definition ejerciciosUnicosSemana :: "zone \<Rightarrow> int \<Rightarrow> resultado list \<Rightarrow> string list" where
  "ejerciciosUnicosSemana host hoy rs =
     newSet (filter (\<lambda>i. i \<noteq> [])
       (map (\<lambda>r. idDe (ejercicio_id r)) (resultadosSemana host hoy rs)))"

definition fechaRacha :: "resultado \<Rightarrow> jsdate" where
  "fechaRacha r =
     (case fecha r of Some t \<Rightarrow> At t
      | None \<Rightarrow> (case createdAt r of Some t \<Rightarrow> At t
          | None \<Rightarrow> (case updatedAt r of Some t \<Rightarrow> At t | None \<Rightarrow> Missing)))"

definition rachaDias :: "zone \<Rightarrow> zone \<Rightarrow> resultado list \<Rightarrow> nat" where
  "rachaDias madrid host rs = computeStreak madrid host (map fechaRacha rs)"

record resumenSemanal =
  ejerciciosCompletados :: nat
  conceptosDistintos :: nat
  rs_rachaDias :: nat

definition resumen :: "zone \<Rightarrow> zone \<Rightarrow> int \<Rightarrow> resultado list \<Rightarrow> resumenSemanal" where
  "resumen madrid host hoy rs =
     \<lparr>ejerciciosCompletados = length (ejerciciosUnicosSemana host hoy rs),
      conceptosDistintos = length (conceptosSemana host hoy rs),
      rs_rachaDias = rachaDias madrid host rs\<rparr>"

subsection \<open>D: the last session\<close>

definition orElse :: "string \<Rightarrow> string \<Rightarrow> string" where
  "orElse a b = (if a \<noteq> [] then a else b)"

record ultimaSesion =
  tituloEjercicio :: string
  analisis :: string
  consejo :: string

definition ultima :: "resultado \<Rightarrow> ultimaSesion" where
  "ultima ultimoResultado =
     \<lparr>tituloEjercicio = orElse (tituloDe (ejercicio_id ultimoResultado)) ''Ejercicio Reciente'',
      analisis = orElse (case analisisIA ultimoResultado of None \<Rightarrow> [] | Some a \<Rightarrow> a)
        (''An'' @ a_acute @ ''lisis no disponible.''),
      consejo = orElse (case consejoIA ultimoResultado of None \<Rightarrow> [] | Some c \<Rightarrow> c)
        ''Sigue practicando.''\<rparr>"

subsection \<open>E: frequent errors\<close>

record errorFrecuente = errorTag +
  veces :: nat

definition contarError :: "errorTag \<Rightarrow> (string \<times> errorFrecuente) list \<Rightarrow> (string \<times> errorFrecuente) list" where
  "contarError e mapa =
     (if etiqueta e = [] then mapa
      else upsert (etiqueta e)
        \<lparr>etiqueta = etiqueta e, texto = orElse (texto e) (etiqueta e), veces = 0\<rparr>
        (\<lambda>x. x\<lparr>veces := veces x + 1\<rparr>) mapa)"

definition mapaErrores :: "resultado list \<Rightarrow> (string \<times> errorFrecuente) list" where
  "mapaErrores rs = fold (\<lambda>r mapa. fold contarError (errores r) mapa) rs []"

text \<open>
  \<^verbatim>\<open>sort((a, b) => b.veces - a.veces)\<close> is stable: the order by falling \<open>veces\<close>, entries
  with the same count in the order of \<^verbatim>\<open>Object.values\<close>.
\<close>

definition erroresFrecuentes :: "resultado list \<Rightarrow> errorFrecuente list" where
  "erroresFrecuentes rs =
     take 3 (sort_key (\<lambda>e. - int (veces e)) (map snd (mapaErrores rs)))"

subsection \<open>F: the recommendation\<close>

record recomendacion =
  rec_titulo :: string
  motivo :: string
  ejercicioId :: "string option"
  rec_concepto :: string

definition recomendacionInicial :: recomendacion where
  "recomendacionInicial =
     \<lparr>rec_titulo = [],
      motivo = ''Haz un ejercicio para que el tutor pueda recomendarte una pr'' @ a_acute
        @ ''ctica personalizada.'',
      ejercicioId = None,
      rec_concepto = []\<rparr>"

definition motivoErrores :: string where
  "motivoErrores = ''Recomendaci'' @ o_acute @ ''n basada en tus errores recientes.''"

definition motivoRevisa :: string where
  "motivoRevisa = ''Revisa el concepto de tu '' @ u_acute @ ''ltima sesi'' @ o_acute
     @ ''n y prueba un ejercicio similar.''"

definition motivoReforzar :: string where
  "motivoReforzar = ''Te recomiendo reforzar este concepto seg'' @ u_acute
     @ ''n tu actividad reciente.''"

definition motivoRefuerza :: "string \<Rightarrow> string" where
  "motivoRefuerza conceptoObjetivo = ''Refuerza el concepto: '' @ conceptoObjetivo @ ''.''"

definition tituloRecomendacion :: string where
  "tituloRecomendacion = ''Recomendaci'' @ o_acute @ ''n''"

definition hasRealErrors :: "errorFrecuente list \<Rightarrow> bool" where
  "hasRealErrors efs = list_ex (\<lambda>e. etiqueta e \<noteq> [] \<and> etiqueta e \<noteq> ''AC_UNK'') efs"

text \<open>
  \<^verbatim>\<open>[...eficienciaPorConcepto].sort((a, b) => b.interacciones - a.interacciones)[0]\<close>,
  on a list that is not empty.
\<close>

definition peor :: "eficienciaItem list \<Rightarrow> eficienciaItem" where
  "peor items = hd (sort_key (\<lambda>e. - interacciones e) items)"

text \<open>
  \<^verbatim>\<open>Ejercicio.findOne({ concepto })\<close> is a parameter: it fails (the route answers 500),
  finds nothing, or finds an exercise.
\<close>

definition recomendar ::
  "(string \<Rightarrow> error + ejercicio option) \<Rightarrow> resultado \<Rightarrow> errorFrecuente list \<Rightarrow>
     eficienciaItem list \<Rightarrow> error + recomendacion" where
  "recomendar findOne ultimoResultado efs items =
     (if hasRealErrors efs then
        (let conceptoObjetivo = conceptoDe (ejercicio_id ultimoResultado) in
         if conceptoObjetivo \<noteq> [] then
           (case findOne conceptoObjetivo of
              Inl err \<Rightarrow> Inl err
            | Inr (Some ej) \<Rightarrow>
                Inr \<lparr>rec_titulo = orElse (ej_titulo ej) ''Ejercicio recomendado'',
                     motivo = motivoErrores,
                     ejercicioId = Some (ej_id ej),
                     rec_concepto = orElse (ej_concepto ej) conceptoObjetivo\<rparr>
            | Inr None \<Rightarrow>
                Inr \<lparr>rec_titulo = tituloRecomendacion,
                     motivo = motivoRevisa,
                     ejercicioId = None,
                     rec_concepto = conceptoObjetivo\<rparr>)
         else Inr recomendacionInicial)
      else if length items > 0 then
        (let conceptoObjetivo = ef_concepto (peor items) in
         case findOne conceptoObjetivo of
           Inl err \<Rightarrow> Inl err
         | Inr (Some ej) \<Rightarrow>
             Inr \<lparr>rec_titulo = orElse (ej_titulo ej) ''Ejercicio recomendado'',
                  motivo = motivoReforzar,
                  ejercicioId = Some (ej_id ej),
                  rec_concepto = orElse (ej_concepto ej) conceptoObjetivo\<rparr>
         | Inr None \<Rightarrow>
             Inr \<lparr>rec_titulo = tituloRecomendacion,
                  motivo = motivoRefuerza conceptoObjetivo,
                  ejercicioId = None,
                  rec_concepto = conceptoObjetivo\<rparr>)
      else Inr recomendacionInicial)"

subsection \<open>The handler\<close>

record progreso =
  p_interaccionesMedias :: rat
  p_eficienciaPorConcepto :: "eficienciaItem list"
  p_resumenSemanal :: resumenSemanal
  p_ultimaSesion :: ultimaSesion
  p_erroresFrecuentes :: "errorFrecuente list"
  p_recomendacion :: recomendacion

text \<open>
  An answer of a route: the JSON it sends with status 200, or the status of a refusal
  (400, 404, 500; the message is left out).
\<close>

datatype 'a respuesta = Json200 'a | Rechazo nat

definition bienvenida :: progreso where
  "bienvenida =
     \<lparr>p_interaccionesMedias = 0,
      p_eficienciaPorConcepto = [],
      p_resumenSemanal = \<lparr>ejerciciosCompletados = 0, conceptosDistintos = 0, rs_rachaDias = 0\<rparr>,
      p_ultimaSesion =
        \<lparr>tituloEjercicio = [CHR 0xC2, CHR 0xA1] @ ''Bienvenido!'',
         analisis = ''A'' @ u_acute @ ''n no has completado ning'' @ u_acute @ ''n ejercicio.'',
         consejo = ''Empieza con uno para ver aqu'' @ i_acute @ '' tu progreso.''\<rparr>,
      p_erroresFrecuentes = [],
      p_recomendacion = recomendacionInicial\<rparr>"

text \<open>
  The environment of a request to \<^verbatim>\<open>GET /:userId\<close>: the two time zones, the clock, the
  identifier check of the database driver, and the two queries. \<open>find\<close> gives the
  learner's results, newest \<open>fecha\<close> first and populated.
\<close>

record entornoProgreso =
  madridZone :: zone
  hostZone :: zone
  ahora :: int
  isValid :: "string \<Rightarrow> bool"
  find :: "string \<Rightarrow> error + resultado list"
  findOne :: "string \<Rightarrow> error + ejercicio option"

definition getProgreso :: "entornoProgreso \<Rightarrow> string \<Rightarrow> progreso respuesta" where
  "getProgreso env userId =
     (if \<not> isValid env userId then Rechazo 400
      else case find env userId of
        Inl err \<Rightarrow> Rechazo 500
      | Inr [] \<Rightarrow> Json200 bienvenida
      | Inr (ultimoResultado # resto) \<Rightarrow>
          (let todosResultados = ultimoResultado # resto;
               efs = erroresFrecuentes todosResultados;
               items = eficienciaPorConcepto todosResultados
           in case recomendar (findOne env) ultimoResultado efs items of
                Inl err \<Rightarrow> Rechazo 500
              | Inr rec \<Rightarrow>
                  Json200
                    \<lparr>p_interaccionesMedias = interaccionesMedias todosResultados,
                     p_eficienciaPorConcepto = items,
                     p_resumenSemanal =
                       resumen (madridZone env) (hostZone env) (ahora env) todosResultados,
                     p_ultimaSesion = ultima ultimoResultado,
                     p_erroresFrecuentes = efs,
                     p_recomendacion = rec\<rparr>))"

section \<open>The finalize route\<close>

subsection \<open>Extracting the JSON object\<close>

text \<open>
  A parsed JSON value. \<^verbatim>\<open>JSON.parse\<close> belongs to the platform and is a parameter
  \<open>parse\<close>: \<open>None\<close> when it throws a syntax error, the value otherwise.
\<close>

datatype json =
  JNull
| JBool bool
| JNumber rat
| JString string
| JArray "json list"
| JObject "(string \<times> json) list"

text \<open>The argument of \<open>extractJsonObject\<close>: a string, or anything else.\<close>

datatype jsvalue = Str string | NotAString

definition backticks :: string where
  "backticks = [CHR 0x60, CHR 0x60, CHR 0x60]"

text \<open>\<^verbatim>\<open>s.replace(/^```(json)?/i, "")\<close>\<close>

definition stripOpeningFence :: "string \<Rightarrow> string" where
  "stripOpeningFence s =
     (if startsWith s backticks then
        (let r = drop 3 s in
         if toLowerCase (take 4 r) = ''json'' then drop 4 r else r)
      else s)"

text \<open>\<^verbatim>\<open>s.replace(/```$/i, "")\<close>\<close>

definition stripClosingFence :: "string \<Rightarrow> string" where
  "stripClosingFence s = (if endsWith s backticks then take (length s - 3) s else s)"

definition cleanFences :: "string \<Rightarrow> string" where
  "cleanFences s = trim (stripClosingFence (stripOpeningFence s))"

text \<open>
  \<^verbatim>\<open>cleaned.match(/\{[\s\S]*\}/)\<close>: the star is greedy, so the match runs from the first
  opening brace to the last closing brace after it, and there is none when no closing
  brace follows the first opening one.
\<close>

definition matchBraces :: "string \<Rightarrow> string option" where
  "matchBraces cleaned =
     (case dropWhile (\<lambda>c. c \<noteq> CHR ''{'') cleaned of
        [] \<Rightarrow> None
      | brace # after \<Rightarrow>
          (case dropWhile (\<lambda>c. c \<noteq> CHR ''}'') (rev after) of
             [] \<Rightarrow> None
           | body \<Rightarrow> Some (brace # rev body)))"

definition extractJsonObject :: "(string \<Rightarrow> json option) \<Rightarrow> jsvalue \<Rightarrow> json option" where
  "extractJsonObject parse text =
     (case text of
        NotAString \<Rightarrow> None
      | Str t \<Rightarrow>
          (let s = trim t in
           if s = [] then None
           else
             (let cleaned = cleanFences s;
                  whole =
                    (if startsWith cleaned ''{'' \<and> endsWith cleaned ''}'' then parse cleaned
                     else None)
              in case whole of
                   Some v \<Rightarrow> Some v
                 | None \<Rightarrow>
                     (case matchBraces cleaned of
                        None \<Rightarrow> None
                      | Some m \<Rightarrow> parse m))))"

subsection \<open>The classifier\<close>

record mensaje =
  role :: string
  content :: string

text \<open>
  \<^verbatim>\<open>interaccion.conversacion\<close>, \<open>None\<close> when it is not an array.
\<close>

record interaccion =
  conversacion :: "mensaje list option"

fun join :: "string \<Rightarrow> string list \<Rightarrow> string" where
  "join sep [] = []"
| "join sep [x] = x"
| "join sep (x # y # ys) = x @ sep @ join sep (y # ys)"

definition conversacionTexto :: "mensaje list \<Rightarrow> string" where
  "conversacionTexto conv =
     (if length conv > 0 then join [CHR 0x0A] (map (\<lambda>m. role m @ '': '' @ content m) conv)
      else ''Conversaci'' @ o_acute @ ''n vac'' @ i_acute @ ''a.'')"

text \<open>
  The two prompts. Each carries the closed list of identifiers and the conversation; the
  fixed sentences of the template around them are left out, and \<open>PromptRetry\<close> is the
  one with the stricter first line.
\<close>

datatype prompt = PromptBase string string | PromptRetry string string

text \<open>
  A thrown value as the \<^verbatim>\<open>catch\<close> block reads it: \<^verbatim>\<open>e.message\<close> and \<^verbatim>\<open>e.code\<close> (empty
  when absent) and \<^verbatim>\<open>String(e)\<close>.
\<close>

record jsError =
  message :: string
  code :: string
  asString :: string

text \<open>
  One call of \<open>callClassifier\<close>: it throws (network failure, timeout, an error status),
  or returns \<^verbatim>\<open>r?.data?.message?.content\<close>.
\<close>

datatype llamada = Throws jsError | Returns jsvalue

datatype status = Ok | FailTimeout | FailInvalidJson | Skipped

text \<open>
  \<open>AC_MAP\<close>, the closed vocabulary of \<^verbatim>\<open>alternative_conceptions.json\<close> (a file that is not
  among the sources): each identifier with its \<^verbatim>\<open>name\<close>, empty when it has none.
\<close>

type_synonym acMap = "(string \<times> string) list"

definition ALLOWED_AC_IDS :: "acMap \<Rightarrow> string list" where
  "ALLOWED_AC_IDS AC_MAP = map fst AC_MAP"

definition ALLOWED_AC_IDS_TEXT :: "acMap \<Rightarrow> string" where
  "ALLOWED_AC_IDS_TEXT AC_MAP = join '', '' (ALLOWED_AC_IDS AC_MAP)"

definition truthy :: "json \<Rightarrow> bool" where
  "truthy v =
     (case v of
        JNull \<Rightarrow> False
      | JBool b \<Rightarrow> b
      | JNumber n \<Rightarrow> n \<noteq> 0
      | JString s \<Rightarrow> s \<noteq> []
      | JArray _ \<Rightarrow> True
      | JObject _ \<Rightarrow> True)"

definition getProp :: "json \<Rightarrow> string \<Rightarrow> json option" where
  "getProp v k = (case v of JObject kvs \<Rightarrow> map_of kvs k | _ \<Rightarrow> None)"

definition textoNoVacio :: "json option \<Rightarrow> string option" where
  "textoNoVacio v =
     (case v of
        Some (JString s) \<Rightarrow> (if trim s \<noteq> [] then Some (trim s) else None)
      | _ \<Rightarrow> None)"

fun strings :: "json list \<Rightarrow> string list" where
  "strings [] = []"
| "strings (JString s # vs) = s # strings vs"
| "strings (_ # vs) = strings vs"

text \<open>\<^verbatim>\<open>Array.isArray(parsed.acs) ? parsed.acs : []\<close>\<close>

definition acsDe :: "json \<Rightarrow> json list" where
  "acsDe parsed = (case getProp parsed ''acs'' of Some (JArray xs) \<Rightarrow> xs | _ \<Rightarrow> [])"

definition acsFiltrados :: "acMap \<Rightarrow> json \<Rightarrow> string list" where
  "acsFiltrados AC_MAP parsed =
     (let acs = acsDe parsed in
      take 3 (filter (\<lambda>acId. acId \<in> set (ALLOWED_AC_IDS AC_MAP)) (map trim (strings acs))))"

definition nombreAC :: "acMap \<Rightarrow> string \<Rightarrow> string" where
  "nombreAC AC_MAP acId = orElse (case map_of AC_MAP acId of None \<Rightarrow> [] | Some n \<Rightarrow> n) acId"

text \<open>
  The variables the \<^verbatim>\<open>try\<close> and \<^verbatim>\<open>catch\<close> blocks assign, and the prompts sent so far.
\<close>

record variables =
  v_analisisIA :: "string option"
  v_consejoIA :: "string option"
  v_errores :: "errorTag list"
  classifierStatus :: status
  llamadas :: "prompt list"

definition iniciales :: variables where
  "iniciales =
     \<lparr>v_analisisIA = None, v_consejoIA = None, v_errores = [],
      classifierStatus = Skipped, llamadas = []\<rparr>"

text \<open>The end of the \<^verbatim>\<open>try\<close> block, from \<^verbatim>\<open>classifierStatus = "ok"\<close> on.\<close>

definition validar :: "acMap \<Rightarrow> json \<Rightarrow> variables \<Rightarrow> variables" where
  "validar AC_MAP parsed v =
     v\<lparr>classifierStatus := Ok,
       v_analisisIA := textoNoVacio (getProp parsed ''analisis''),
       v_consejoIA := textoNoVacio (getProp parsed ''consejo''),
       v_errores :=
         map (\<lambda>acId. \<lparr>etiqueta = acId, texto = nombreAC AC_MAP acId\<rparr>)
           (acsFiltrados AC_MAP parsed)\<rparr>"

definition errorNoJson :: jsError where
  "errorNoJson =
     (let m = ''Clasificador devolvi'' @ o_acute @ '' contenido no-JSON o JSON inv'' @ a_acute
        @ ''lido.''
      in \<lparr>message = m, code = [], asString = ''Error: '' @ m\<rparr>)"

text \<open>
  \<^verbatim>\<open>parsed = extractJsonObject(content)\<close> as \<^verbatim>\<open>if (!parsed)\<close> reads it: \<open>None\<close> when
  the result is falsy.
\<close>

definition extraido :: "(string \<Rightarrow> json option) \<Rightarrow> jsvalue \<Rightarrow> json option" where
  "extraido parse c =
     (case extractJsonObject parse c of
        None \<Rightarrow> None
      | Some p \<Rightarrow> (if truthy p then Some p else None))"

text \<open>
  The \<^verbatim>\<open>try\<close> block: the variables at its end, with the thrown value when it was left by
  a throw.
\<close>

definition bloqueTry ::
  "(prompt \<Rightarrow> llamada) \<Rightarrow> (string \<Rightarrow> json option) \<Rightarrow> acMap \<Rightarrow> prompt \<Rightarrow> prompt \<Rightarrow>
     variables \<Rightarrow> jsError option \<times> variables" where
  "bloqueTry callClassifier parse AC_MAP pBase pRetry v0 =
     (let v1 = v0\<lparr>llamadas := llamadas v0 @ [pBase]\<rparr> in
      case callClassifier pBase of
        Throws e \<Rightarrow> (Some e, v1)
      | Returns content1 \<Rightarrow>
          (case extraido parse content1 of
             Some parsed \<Rightarrow> (None, validar AC_MAP parsed v1)
           | None \<Rightarrow>
               (let v2 = v1\<lparr>llamadas := llamadas v1 @ [pRetry]\<rparr> in
                case callClassifier pRetry of
                  Throws e \<Rightarrow> (Some e, v2)
                | Returns content2 \<Rightarrow>
                    (case extraido parse content2 of
                       Some parsed \<Rightarrow> (None, validar AC_MAP parsed v2)
                     | None \<Rightarrow>
                         (Some errorNoJson, v2\<lparr>classifierStatus := FailInvalidJson\<rparr>)))))"

definition isTimeout :: "jsError \<Rightarrow> bool" where
  "isTimeout e =
     (let msg = orElse (message e) (asString e) in
      includesStr (toLowerCase msg) ''timeout'' \<or> code e = ''ECONNABORTED'')"

definition sentinela :: "bool \<Rightarrow> errorTag" where
  "sentinela timeout =
     \<lparr>etiqueta = ''AC_UNK'',
      texto = (if timeout then ''No se pudo clasificar (timeout)''
               else ''No se pudo clasificar (formato inv'' @ a_acute @ ''lido)'')\<rparr>"

text \<open>
  The \<^verbatim>\<open>catch\<close> block; \<open>n\<close> is \<^verbatim>\<open>numMensajes\<close>, the length of the conversation.
\<close>

definition bloqueCatch :: "nat \<Rightarrow> jsError \<Rightarrow> variables \<Rightarrow> variables" where
  "bloqueCatch n e v =
     (let v' = v\<lparr>classifierStatus := (if isTimeout e then FailTimeout else classifierStatus v)\<rparr>
      in if n > 0 then v'\<lparr>v_errores := [sentinela (isTimeout e)]\<rparr> else v')"

definition promptBase :: "acMap \<Rightarrow> mensaje list \<Rightarrow> prompt" where
  "promptBase AC_MAP conv = PromptBase (ALLOWED_AC_IDS_TEXT AC_MAP) (conversacionTexto conv)"

definition promptRetry :: "acMap \<Rightarrow> mensaje list \<Rightarrow> prompt" where
  "promptRetry AC_MAP conv = PromptRetry (ALLOWED_AC_IDS_TEXT AC_MAP) (conversacionTexto conv)"

definition clasificar ::
  "(prompt \<Rightarrow> llamada) \<Rightarrow> (string \<Rightarrow> json option) \<Rightarrow> acMap \<Rightarrow> mensaje list \<Rightarrow> variables" where
  "clasificar callClassifier parse AC_MAP conv =
     (case bloqueTry callClassifier parse AC_MAP (promptBase AC_MAP conv)
             (promptRetry AC_MAP conv) iniciales of
        (None, v) \<Rightarrow> v
      | (Some e, v) \<Rightarrow> bloqueCatch (length conv) e v)"

subsection \<open>The handler\<close>

text \<open>
  The body of the request: an identifier that is missing or empty is falsy. The
  environment: the identifier check of the database driver, the lookup of the
  interaction (it fails, finds nothing, or finds it), whether saving a result succeeds,
  the classifier, \<^verbatim>\<open>JSON.parse\<close> and the vocabulary.
\<close>

record cuerpo =
  userId :: string
  exerciseId :: string
  interaccionId :: string
  c_resueltoALaPrimera :: "bool option"

record entornoFinalizar =
  f_isValid :: "string \<Rightarrow> bool"
  findById :: "string \<Rightarrow> error + interaccion option"
  save :: "resultadoFields \<Rightarrow> error + unit"
  callClassifier :: "prompt \<Rightarrow> llamada"
  jsonParse :: "string \<Rightarrow> json option"
  acData :: acMap

record guardado =
  g_numMensajes :: nat
  g_analisisIA :: bool
  g_consejoIA :: bool
  g_errores :: "string list"

record finalizado =
  f_classifierStatus :: status
  saved :: guardado

text \<open>
  The route answers and leaves the results it has saved (none or one) and the prompts
  it has sent to the classifier.
\<close>

record efecto =
  respuestaDe :: "finalizado respuesta"
  guardados :: "resultadoFields list"
  enviados :: "prompt list"

definition finalizar :: "entornoFinalizar \<Rightarrow> cuerpo \<Rightarrow> efecto" where
  "finalizar env body =
     (if userId body = [] \<or> exerciseId body = [] \<or> interaccionId body = [] then
        \<lparr>respuestaDe = Rechazo 400, guardados = [], enviados = []\<rparr>
      else if \<not> f_isValid env (userId body) \<or> \<not> f_isValid env (exerciseId body)
              \<or> \<not> f_isValid env (interaccionId body) then
        \<lparr>respuestaDe = Rechazo 400, guardados = [], enviados = []\<rparr>
      else case findById env (interaccionId body) of
        Inl err \<Rightarrow> \<lparr>respuestaDe = Rechazo 500, guardados = [], enviados = []\<rparr>
      | Inr None \<Rightarrow> \<lparr>respuestaDe = Rechazo 404, guardados = [], enviados = []\<rparr>
      | Inr (Some interaccionDoc) \<Rightarrow>
          (let conv = (case conversacion interaccionDoc of Some c \<Rightarrow> c | None \<Rightarrow> []);
               v = clasificar (callClassifier env) (jsonParse env) (acData env) conv;
               nuevoResultado =
                 \<lparr>usuario_id = userId body,
                  ejercicio_id = RawId (exerciseId body),
                  interaccion_id = interaccionId body,
                  resueltoALaPrimera =
                    (case c_resueltoALaPrimera body of None \<Rightarrow> False | Some b \<Rightarrow> b),
                  numMensajes = length conv,
                  analisisIA = v_analisisIA v,
                  consejoIA = v_consejoIA v,
                  errores = v_errores v\<rparr>
           in case save env nuevoResultado of
                Inl err \<Rightarrow>
                  \<lparr>respuestaDe = Rechazo 500, guardados = [], enviados = llamadas v\<rparr>
              | Inr _ \<Rightarrow>
                  \<lparr>respuestaDe =
                     Json200
                       \<lparr>f_classifierStatus = classifierStatus v,
                        saved =
                          \<lparr>g_numMensajes = length conv,
                           g_analisisIA = (v_analisisIA v \<noteq> None),
                           g_consejoIA = (v_consejoIA v \<noteq> None),
                           g_errores = map etiqueta (v_errores v)\<rparr>\<rparr>,
                   guardados = [nuevoResultado],
                   enviados = llamadas v\<rparr>))"

section \<open>Notions the properties are stated with\<close>

text \<open>The set of day keys that a list of dates yields.\<close>

definition dayKeySet :: "zone \<Rightarrow> jsdate list \<Rightarrow> int set" where
  "dayKeySet madrid dates = set (List.map_filter (dayKeyMadrid madrid) dates)"

text \<open>Example data: an exercise, and a stored result with given dates.\<close>

definition leyDeOhm :: ejercicio where
  "leyDeOhm = \<lparr>ej_id = ''e1'', ej_titulo = ''Divisor'', ej_concepto = ''Ley de Ohm''\<rparr>"

definition resultadoDe ::
  "ejercicio_ref \<Rightarrow> errorTag list \<Rightarrow> int option \<Rightarrow> int option \<Rightarrow> int option \<Rightarrow> resultado" where
  "resultadoDe ref es f c u =
     \<lparr>usuario_id = ''u1'', ejercicio_id = ref, interaccion_id = ''i1'',
      resueltoALaPrimera = False, numMensajes = 4, analisisIA = None, consejoIA = None,
      errores = es, fecha = f, createdAt = c, updatedAt = u\<rparr>"

text \<open>
  Example data for the finalize route: a vocabulary, a conversation of one message, the
  text of a JSON object, a reply that wraps it in a code fence, and a \<open>parse\<close> that
  knows that one text.
\<close>

definition vocabularioEjemplo :: acMap where
  "vocabularioEjemplo = [(''AC1'', ''Uno''), (''AC2'', ''Dos''), (''AC3'', [])]"

definition fenced :: "string \<Rightarrow> string" where
  "fenced obj = backticks @ ''json'' @ [CHR 0x0A] @ obj @ [CHR 0x0A] @ backticks"

definition objetoEjemplo :: string where
  \<open>objetoEjemplo = ''{"acs":["AC1"]}''\<close>

definition parseEjemplo :: "string \<Rightarrow> json option" where
  "parseEjemplo s =
     (if s = objetoEjemplo then Some (JObject [(''acs'', JArray [JString ''AC1''])]) else None)"

definition unMensaje :: "mensaje list" where
  "unMensaje = [\<lparr>role = ''user'', content = ''hola''\<rparr>]"

text \<open>
  Two thrown errors (a refused connection, and the timeout of the HTTP client), a request
  body, and an environment in which every identifier is valid, the interaction has the
  one-message conversation, and saving succeeds.
\<close>

definition errorRed :: jsError where
  "errorRed =
     \<lparr>message = ''connect ECONNREFUSED 127.0.0.1:11434'', code = ''ECONNREFUSED'',
      asString = ''Error: connect ECONNREFUSED 127.0.0.1:11434''\<rparr>"

definition errorTimeout :: jsError where
  "errorTimeout =
     \<lparr>message = ''timeout of 240000ms exceeded'', code = ''ECONNABORTED'',
      asString = ''AxiosError: timeout of 240000ms exceeded''\<rparr>"

definition cuerpoEjemplo :: cuerpo where
  "cuerpoEjemplo =
     \<lparr>userId = ''u1'', exerciseId = ''e1'', interaccionId = ''i1'', c_resueltoALaPrimera = None\<rparr>"

definition entornoEjemplo :: "(prompt \<Rightarrow> llamada) \<Rightarrow> entornoFinalizar" where
  "entornoEjemplo call =
     \<lparr>f_isValid = (\<lambda>_. True),
      findById = (\<lambda>_. Inr (Some \<lparr>conversacion = Some unMensaje\<rparr>)),
      save = (\<lambda>_. Inr ()),
      callClassifier = call,
      jsonParse = parseEjemplo,
      acData = vocabularioEjemplo\<rparr>"

text \<open>
  The labels of all error tags of all results, in the order of the results and of their
  tags, without the empty ones; and the count of each label of a list, the labels in the
  order in which they first occur.
\<close>

definition etiquetasDe :: "resultado list \<Rightarrow> string list" where
  "etiquetasDe rs = filter (\<lambda>l. l \<noteq> []) (map etiqueta (concat (map errores rs)))"

definition recuento :: "string list \<Rightarrow> (string \<times> nat) list" where
  "recuento ls = map (\<lambda>l. (l, count_list ls l)) (newSet ls)"

text \<open>
  \<open>pares\<close> reads the keys and counts of \<^verbatim>\<open>mapaErrores\<close>.
\<close>

definition pares :: "(string \<times> errorFrecuente) list \<Rightarrow> (string \<times> nat) list" where
  "pares m = map (\<lambda>(k, e). (k, veces e)) m"

text \<open>
  Example data: six results whose tags are five times AC1, five times AC2, three times
  AC3 and nine times AC4, AC1 met first.
\<close>

definition tag :: "string \<Rightarrow> errorTag" where
  "tag l = \<lparr>etiqueta = l, texto = []\<rparr>"

definition resultadosEjemplo :: "resultado list" where
  "resultadosEjemplo =
     replicate 3 (resultadoDe NoRef [tag ''AC1'', tag ''AC2'', tag ''AC3'', tag ''AC4''] None None None)
     @ replicate 2 (resultadoDe NoRef [tag ''AC1'', tag ''AC2'', tag ''AC4''] None None None)
     @ [resultadoDe NoRef [tag ''AC4'', tag ''AC4'', tag ''AC4'', tag ''AC4''] None None None]"

text \<open>
  The non-empty concepts of the results in their order, the results of one concept, and
  the mean number of messages of a list of results.
\<close>

definition conceptosDe :: "resultado list \<Rightarrow> string list" where
  "conceptosDe rs = filter (\<lambda>c. c \<noteq> []) (map (\<lambda>r. conceptoDe (ejercicio_id r)) rs)"

definition deConcepto :: "string \<Rightarrow> resultado list \<Rightarrow> resultado list" where
  "deConcepto c rs = filter (\<lambda>r. conceptoDe (ejercicio_id r) = c) rs"

definition media :: "resultado list \<Rightarrow> rat" where
  "media rs = of_nat (sum_list (map numMensajes rs)) / of_nat (length rs)"

text \<open>
  Example data for the recommendation: a frequent error, three concepts with their means
  (the second and the third tie for the highest), a lookup that finds an exercise of
  the concept it is asked for, and an environment of the progress route whose queries
  give a fixed list of results and a fixed exercise.
\<close>

definition frecuente :: "string \<Rightarrow> nat \<Rightarrow> errorFrecuente" where
  "frecuente l n = \<lparr>etiqueta = l, texto = l, veces = n\<rparr>"

definition itemsEjemplo :: "eficienciaItem list" where
  "itemsEjemplo =
     [\<lparr>ef_concepto = ''Ley de Ohm'', interacciones = 3\<rparr>,
      \<lparr>ef_concepto = ''Kirchhoff'', interacciones = 11 / 2\<rparr>,
      \<lparr>ef_concepto = ''Potencia'', interacciones = 11 / 2\<rparr>]"

definition buscarEjemplo :: "string \<Rightarrow> error + ejercicio option" where
  "buscarEjemplo c = Inr (Some \<lparr>ej_id = ''e2'', ej_titulo = ''Mallas'', ej_concepto = c\<rparr>)"

definition entornoProgresoEjemplo :: "resultado list \<Rightarrow> entornoProgreso" where
  "entornoProgresoEjemplo rs =
     \<lparr>madridZone = europeMadrid2024, hostZone = fixedZone 0, ahora = 1711965600000,
      isValid = (\<lambda>_. True), find = (\<lambda>_. Inr rs), findOne = (\<lambda>_. Inr (Some leyDeOhm))\<rparr>"

text \<open>
  A second exercise, and a reply of the classifier that is the object of the example
  followed by a remark with braces.
\<close>

definition kirchhoff :: ejercicio where
  "kirchhoff = \<lparr>ej_id = ''e2'', ej_titulo = ''Mallas'', ej_concepto = ''Kirchhoff''\<rparr>"

definition respuestaConNota :: string where
  \<open>respuestaConNota = ''{"acs":["AC1"]} (formato: {})''\<close>

section \<open>Properties\<close>

subsection \<open>Trimming\<close>

text \<open>
  The two steps of \<open>stripStart\<close>, as rules the simplifier applies only when it can
  decide whether the string starts with white space.
\<close>

lemma stripStart_stop: "wsLength ws s = 0 \<Longrightarrow> stripStart ws s = s"
  by (simp add: stripStart.simps [of ws s])

lemma stripStart_step:
  "wsLength ws s \<noteq> 0 \<Longrightarrow> stripStart ws s = stripStart ws (drop (wsLength ws s) s)"
  by (simp add: stripStart.simps [of ws s])

lemmas trim_eval =
  trim_def stripStart_stop stripStart_step wsLength_def whiteSpace_def startsWith_def

lemma set_stripStart: "set (stripStart ws s) \<subseteq> set s"
proof (induction ws s rule: stripStart.induct)
  case (1 ws s)
  show ?case
  proof (cases "wsLength ws s = 0")
    case True
    then show ?thesis by (simp add: stripStart_stop)
  next
    case False
    with "1" have "set (stripStart ws (drop (wsLength ws s) s)) \<subseteq> set (drop (wsLength ws s) s)"
      by simp
    also have "\<dots> \<subseteq> set s" by (rule set_drop_subset)
    finally show ?thesis using False by (simp add: stripStart_step [of ws s])
  qed
qed

lemma set_trim: "set (trim s) \<subseteq> set s"
proof -
  have "set (trim s) = set (stripStart (map rev whiteSpace) (rev (stripStart whiteSpace s)))"
    by (simp add: trim_def)
  also have "\<dots> \<subseteq> set (rev (stripStart whiteSpace s))" by (rule set_stripStart)
  also have "\<dots> = set (stripStart whiteSpace s)" by simp
  also have "\<dots> \<subseteq> set s" by (rule set_stripStart)
  finally show ?thesis .
qed

lemma wsLength_first:
  "wsLength whiteSpace (CHR ''{'' # cs) = 0" "wsLength whiteSpace (CHR 0x60 # cs) = 0"
  "wsLength whiteSpace (CHR 0x0A # cs) = 1"
  by (simp_all add: wsLength_def whiteSpace_def startsWith_def)

lemma wsLength_last:
  "wsLength (map rev whiteSpace) (CHR ''}'' # cs) = 0"
  "wsLength (map rev whiteSpace) (CHR 0x60 # cs) = 0"
  "wsLength (map rev whiteSpace) (CHR 0x0A # cs) = 1"
  by (simp_all add: wsLength_def whiteSpace_def startsWith_def)

lemma trim_braced_lines:
  "trim (CHR 0x0A # CHR ''{'' # mid @ [CHR ''}'', CHR 0x0A]) = CHR ''{'' # mid @ [CHR ''}'']"
  by (simp add: trim_def stripStart_stop stripStart_step wsLength_first wsLength_last)

lemma trim_ticks:
  "trim (CHR 0x60 # mid @ [CHR 0x60]) = CHR 0x60 # mid @ [CHR 0x60]"
  by (simp add: trim_def stripStart_stop stripStart_step wsLength_first wsLength_last)

text \<open>
  White space at the start and at the end of a string is trimmed away, whichever of the
  25 characters it is. No white-space character starts with another, and none has the
  first byte of one among its later bytes, so what a string starts with is not changed
  by what is appended to it.
\<close>

lemma whiteSpace_prefix_free:
  "\<forall>v \<in> set whiteSpace. \<forall>w \<in> set whiteSpace. startsWith v w \<longrightarrow> v = w"
  by (simp add: whiteSpace_def startsWith_def)

lemma whiteSpace_first_bytes:
  "\<forall>v \<in> set whiteSpace. \<forall>w \<in> set whiteSpace. hd w \<notin> set (tl v)"
  by (simp add: whiteSpace_def)

lemma whiteSpace_nonempty: "w \<in> set whiteSpace \<Longrightarrow> w \<noteq> []"
  by (auto simp: whiteSpace_def)

lemma wsLength_Some:
  assumes "wsLength ws s \<noteq> 0"
  shows "\<exists>v \<in> set ws. startsWith s v \<and> wsLength ws s = length v"
proof -
  from assms obtain v where v: "List.find (\<lambda>w. startsWith s w) ws = Some v"
    by (auto simp: wsLength_def split: option.splits)
  then have "v \<in> set ws" "startsWith s v" by (auto simp: find_Some_iff)
  moreover from v have "wsLength ws s = length v" by (simp add: wsLength_def)
  ultimately show ?thesis by blast
qed

lemma wsLength_0:
  assumes "wsLength ws s = 0" and "[] \<notin> set ws" and "v \<in> set ws"
  shows "\<not> startsWith s v"
proof (cases "List.find (\<lambda>w. startsWith s w) ws")
  case None
  with assms(3) show ?thesis by (auto simp: find_None_iff)
next
  case (Some u)
  with assms(1) have "u = []" by (simp add: wsLength_def)
  moreover from Some have "u \<in> set ws" by (auto simp: find_Some_iff)
  ultimately show ?thesis using assms(2) by simp
qed

lemma wsLength_append:
  assumes n: "wsLength whiteSpace s \<noteq> 0"
  shows "wsLength whiteSpace (s @ t) = wsLength whiteSpace s \<and> wsLength whiteSpace s \<le> length s"
proof -
  have e: "[] \<notin> set whiteSpace" using whiteSpace_nonempty by blast
  from wsLength_Some [OF n] obtain v
    where v: "v \<in> set whiteSpace" "startsWith s v" "wsLength whiteSpace s = length v"
    by blast
  from v(2) have lv: "length v \<le> length s"
    by (metis startsWith_def length_take min.cobounded2 min.commute)
  with v(2) have sv: "startsWith (s @ t) v" by (simp add: startsWith_def)
  with wsLength_0 [OF _ e v(1), of "s @ t"] have "wsLength whiteSpace (s @ t) \<noteq> 0" by blast
  from wsLength_Some [OF this] obtain u
    where u: "u \<in> set whiteSpace" "startsWith (s @ t) u"
      "wsLength whiteSpace (s @ t) = length u"
    by blast
  have "u = v"
  proof (cases "length v \<le> length u")
    case True
    have "take (length v) u = take (length v) (take (length u) (s @ t))"
      using u(2) by (simp add: startsWith_def)
    also have "\<dots> = take (length v) (s @ t)" using True by (simp add: min_def)
    also have "\<dots> = v" using sv by (simp add: startsWith_def)
    finally have "startsWith u v" by (simp add: startsWith_def)
    with whiteSpace_prefix_free u(1) v(1) show ?thesis by blast
  next
    case False
    have "take (length u) v = take (length u) (take (length v) (s @ t))"
      using sv by (simp add: startsWith_def)
    also have "\<dots> = take (length u) (s @ t)" using False by (simp add: min_def)
    also have "\<dots> = u" using u(2) by (simp add: startsWith_def)
    finally have "startsWith v u" by (simp add: startsWith_def)
    with whiteSpace_prefix_free u(1) v(1) show ?thesis by blast
  qed
  with u(3) v(3) lv show ?thesis by simp
qed

lemma wsLength_append_white:
  assumes z: "wsLength whiteSpace s = 0" and s: "s \<noteq> []" and w: "w \<in> set whiteSpace"
  shows "wsLength whiteSpace (s @ w) = 0"
proof (rule ccontr)
  assume "wsLength whiteSpace (s @ w) \<noteq> 0"
  from wsLength_Some [OF this] obtain v
    where v: "v \<in> set whiteSpace" "startsWith (s @ w) v" by blast
  have e: "[] \<notin> set whiteSpace" using whiteSpace_nonempty by blast
  from wsLength_0 [OF z e v(1)] have nv: "\<not> startsWith s v" .
  have l: "length s < length v"
  proof (rule ccontr)
    assume "\<not> length s < length v"
    with v(2) have "startsWith s v" by (simp add: startsWith_def)
    with nv show False by simp
  qed
  from w have wn: "w \<noteq> []" by (rule whiteSpace_nonempty)
  from v(2) have "v ! length s = take (length v) (s @ w) ! length s"
    by (simp add: startsWith_def)
  also have "\<dots> = (s @ w) ! length s" using l by (rule nth_take)
  also have "\<dots> = hd w" using wn by (simp add: nth_append hd_conv_nth)
  finally have h: "v ! length s = hd w" .
  from s obtain k where k: "length s = Suc k" by (cases s) auto
  with l have "v ! length s = tl v ! k" "k < length (tl v)"
    by (simp_all add: nth_tl)
  then have "v ! length s \<in> set (tl v)" by (metis nth_mem)
  with h whiteSpace_first_bytes v(1) w show False by auto
qed

lemma wsLength_white:
  "map (\<lambda>w. wsLength whiteSpace (w @ s)) whiteSpace = map length whiteSpace"
  by (simp add: wsLength_def whiteSpace_def startsWith_def)

lemma stripStart_white: "w \<in> set whiteSpace \<Longrightarrow> stripStart whiteSpace (w @ s) = stripStart whiteSpace s"
proof -
  assume w: "w \<in> set whiteSpace"
  then obtain i where i: "i < length whiteSpace" "w = whiteSpace ! i"
    by (auto simp: in_set_conv_nth)
  from arg_cong [OF wsLength_white [of s], of "\<lambda>xs. xs ! i"] i
  have l: "wsLength whiteSpace (w @ s) = length w" by simp
  from w have "w \<noteq> []" by (rule whiteSpace_nonempty)
  with l show ?thesis by (simp add: stripStart.simps [of whiteSpace "w @ s"])
qed

lemma trim_white_start:
  "map (\<lambda>w. trim (w @ s)) whiteSpace = map (\<lambda>w. trim s) whiteSpace"
proof -
  have "trim (w @ s) = trim s" if w: "w \<in> set whiteSpace" for w
    using stripStart_white [OF w, of s] by (simp add: trim_def)
  then show ?thesis by simp
qed

lemma wsLength_white_rev:
  "map (\<lambda>w. wsLength (map rev whiteSpace) (rev w @ s)) whiteSpace = map length whiteSpace"
  by (simp add: wsLength_def whiteSpace_def startsWith_def)

lemma stripStart_white_rev:
  assumes w: "w \<in> set whiteSpace"
  shows "stripStart (map rev whiteSpace) (rev w @ s) = stripStart (map rev whiteSpace) s"
proof -
  from w obtain i where i: "i < length whiteSpace" "w = whiteSpace ! i"
    by (auto simp: in_set_conv_nth)
  from arg_cong [OF wsLength_white_rev [of s], of "\<lambda>xs. xs ! i"] i
  have l: "wsLength (map rev whiteSpace) (rev w @ s) = length w" by simp
  from w have "w \<noteq> []" by (rule whiteSpace_nonempty)
  with l show ?thesis by (simp add: stripStart.simps [of "map rev whiteSpace" "rev w @ s"])
qed

lemma stripStart_append_white:
  assumes w: "w \<in> set whiteSpace"
  shows "stripStart whiteSpace (s @ w)
           = (if stripStart whiteSpace s = [] then [] else stripStart whiteSpace s @ w)"
proof (induction s rule: length_induct)
  case (1 s)
  show ?case
  proof (cases "wsLength whiteSpace s = 0")
    case True
    then have ss: "stripStart whiteSpace s = s" by (rule stripStart_stop)
    show ?thesis
    proof (cases "s = []")
      case True
      have "stripStart whiteSpace (w @ []) = stripStart whiteSpace []"
        using w by (rule stripStart_white)
      moreover have "stripStart whiteSpace [] = []"
        by (simp add: stripStart_stop wsLength_def whiteSpace_def startsWith_def)
      ultimately show ?thesis using True by simp
    next
      case False
      from wsLength_append_white [OF True False w]
      have "stripStart whiteSpace (s @ w) = s @ w" by (rule stripStart_stop)
      with ss False show ?thesis by simp
    qed
  next
    case False
    from wsLength_append [OF False, of w]
    have a: "wsLength whiteSpace (s @ w) = wsLength whiteSpace s"
      and b: "wsLength whiteSpace s \<le> length s" by simp_all
    let ?n = "wsLength whiteSpace s"
    from False b have "length (drop ?n s) < length s" by simp
    with "1" have ih: "stripStart whiteSpace (drop ?n s @ w)
           = (if stripStart whiteSpace (drop ?n s) = [] then []
              else stripStart whiteSpace (drop ?n s) @ w)" by blast
    have "stripStart whiteSpace (s @ w) = stripStart whiteSpace (drop ?n (s @ w))"
      using False a by (simp add: stripStart_step [of whiteSpace "s @ w"])
    also have "drop ?n (s @ w) = drop ?n s @ w" using b by simp
    finally have "stripStart whiteSpace (s @ w) = stripStart whiteSpace (drop ?n s @ w)" .
    moreover have "stripStart whiteSpace s = stripStart whiteSpace (drop ?n s)"
      using False by (rule stripStart_step)
    ultimately show ?thesis using ih by simp
  qed
qed

lemma trim_white_end:
  "map (\<lambda>w. trim (s @ w)) whiteSpace = map (\<lambda>w. trim s) whiteSpace"
proof -
  have "trim (s @ w) = trim s" if w: "w \<in> set whiteSpace" for w
  proof (cases "stripStart whiteSpace s = []")
    case True
    with stripStart_append_white [OF w, of s] show ?thesis by (simp add: trim_def)
  next
    case False
    with stripStart_append_white [OF w, of s]
    have "stripStart whiteSpace (s @ w) = stripStart whiteSpace s @ w" by simp
    then show ?thesis by (simp add: trim_def stripStart_white_rev [OF w])
  qed
  then show ?thesis by simp
qed

text \<open>Trimming leaves a string that neither starts nor ends with white space.\<close>

lemma trim_keeps:
  "wsLength whiteSpace s = 0 \<Longrightarrow> wsLength (map rev whiteSpace) (rev s) = 0 \<Longrightarrow> trim s = s"
  by (simp add: trim_def stripStart_stop)

lemma set_collectKeys:
  "set (collectKeys madrid dates s) =
     set s \<union> {k. \<exists>dt \<in> set dates. dayKeyMadrid madrid dt = Some k}"
  by (induction dates arbitrary: s) (auto simp: setAdd_def split: option.splits)

lemma distinct_collectKeys:
  "distinct s \<Longrightarrow> distinct (collectKeys madrid dates s)"
  by (induction dates arbitrary: s) (auto simp: setAdd_def split: option.splits)

subsection \<open>The streak\<close>

lemma dayKeySet_collectKeys:
  "set (collectKeys madrid dates []) = dayKeySet madrid dates"
  by (force simp: set_collectKeys dayKeySet_def List.map_filter_def)

lemma sort_collectKeys_eq:
  assumes "dayKeySet madrid xs = dayKeySet madrid ys"
  shows "sort (collectKeys madrid xs []) = sort (collectKeys madrid ys [])"
proof (rule sorted_distinct_set_unique)
  show "set (sort (collectKeys madrid xs [])) = set (sort (collectKeys madrid ys []))"
    using assms by (simp add: dayKeySet_collectKeys)
qed (simp_all add: distinct_collectKeys)

text \<open>
  C8. Two lists of dates that yield the same set of day keys, whatever their order and
  their repetitions, have the same streak.
\<close>

theorem computeStreak_same_day_set:
  assumes "dayKeySet madrid xs = dayKeySet madrid ys"
  shows "computeStreak madrid host xs = computeStreak madrid host ys"
proof -
  have e: "sort (collectKeys madrid xs []) = sort (collectKeys madrid ys [])"
    using assms by (rule sort_collectKeys_eq)
  have "set (collectKeys madrid xs []) = set (collectKeys madrid ys [])"
    using assms by (simp add: dayKeySet_collectKeys)
  then have "(collectKeys madrid xs [] = []) = (collectKeys madrid ys [] = [])"
    by (metis set_empty)
  with e show ?thesis by (simp add: computeStreak_def Let_def)
qed

text \<open>
  C8 at two lists with the days 1 April and 31 March 2024, in different orders, with a
  repetition and with values that give no key.
\<close>

theorem computeStreak_same_day_set_witness:
  "dayKeySet europeMadrid2024 [At 1711965600000, InvalidDate, At 1711879200000, At 1711965600000]
     = dayKeySet europeMadrid2024 [At 1711879200001, Missing, At 1711965600000]
   \<and> computeStreak europeMadrid2024 (fixedZone 0)
         [At 1711965600000, InvalidDate, At 1711879200000, At 1711965600000]
     = computeStreak europeMadrid2024 (fixedZone 0)
         [At 1711879200001, Missing, At 1711965600000]"
proof -
  have h: "dayKeySet europeMadrid2024
             [At 1711965600000, InvalidDate, At 1711879200000, At 1711965600000]
           = dayKeySet europeMadrid2024 [At 1711879200001, Missing, At 1711965600000]"
    by (simp add: dayKeySet_def List.map_filter_def dayKeyMadrid_def localTime_def
          europeMadrid2024_def msPerDay_def insert_commute)
  from h computeStreak_same_day_set [OF h] show ?thesis by simp
qed

text \<open>
  The loop on a host whose offset never changes, on days in strictly falling order: it
  adds to the streak the number \<open>r\<close> of days that follow the first day \<open>a\<close> without a
  gap.
\<close>

lemma walkBack_fixed:
  "sorted_wrt (>) (a # ds) \<Longrightarrow>
     \<exists>r. walkBack (fixedZone off) (a # ds) s = s + r \<and>
         (\<forall>i \<le> r. a - int i \<in> set (a # ds)) \<and> a - int r - 1 \<notin> set (a # ds)"
proof (induction ds arbitrary: a s)
  case Nil
  show ?case by (rule exI [of _ 0]) simp
next
  case (Cons b rest)
  show ?case
  proof (cases "a - b = 1")
    case True
    from Cons.prems have "sorted_wrt (>) (b # rest)" by simp
    from Cons.IH [OF this, of "s + 1"] obtain r where
      r: "walkBack (fixedZone off) (b # rest) (s + 1) = s + 1 + r"
         "\<forall>i \<le> r. b - int i \<in> set (b # rest)" "b - int r - 1 \<notin> set (b # rest)"
      by blast
    have w: "walkBack (fixedZone off) (a # b # rest) s = s + Suc r"
      using True r(1)
      by (simp add: localMidnight_def utcOfLocal_def fixedZone_def msPerDay_def algebra_simps)
    have i: "\<forall>i \<le> Suc r. a - int i \<in> set (a # b # rest)"
    proof (intro allI impI)
      fix i assume "i \<le> Suc r"
      show "a - int i \<in> set (a # b # rest)"
      proof (cases i)
        case 0 then show ?thesis by simp
      next
        case (Suc j)
        with \<open>i \<le> Suc r\<close> have "b - int j \<in> set (b # rest)" using r(2) by simp
        moreover have "a - int i = b - int j" using True Suc by simp
        ultimately show ?thesis by simp
      qed
    qed
    have "a - int (Suc r) - 1 = b - int r - 1" using True by simp
    moreover have "b - int r - 1 \<noteq> a" using True by simp
    ultimately have n: "a - int (Suc r) - 1 \<notin> set (a # b # rest)" using r(3) by simp
    from w i n show ?thesis by blast
  next
    case False
    from Cons.prems have lt: "\<forall>x \<in> set (b # rest). x \<le> b" "b < a" by auto
    with False have "a - 1 \<notin> set (a # b # rest)" by auto
    moreover have "walkBack (fixedZone off) (a # b # rest) s = s + 0"
      using False
      by (simp add: localMidnight_def utcOfLocal_def fixedZone_def msPerDay_def algebra_simps)
    ultimately show ?thesis by (intro exI [of _ 0]) simp
  qed
qed

lemma computeStreak_no_key:
  "dayKeySet madrid dates = {} \<Longrightarrow> computeStreak madrid host dates = 0"
  using dayKeySet_collectKeys [of madrid dates] by (simp add: computeStreak_def)

lemma computeStreak_positive:
  "dayKeySet madrid dates \<noteq> {} \<Longrightarrow> 1 \<le> computeStreak madrid host dates"
proof -
  have "s \<le> walkBack host ds s" for ds s
    by (induction host ds s rule: walkBack.induct) auto
  moreover assume "dayKeySet madrid dates \<noteq> {}"
  then have "collectKeys madrid dates [] \<noteq> []"
    using dayKeySet_collectKeys [of madrid dates] by auto
  ultimately show ?thesis by (simp add: computeStreak_def Let_def)
qed

lemma strictly_falling:
  "distinct xs \<Longrightarrow> sorted_wrt (\<ge>) xs \<Longrightarrow> sorted_wrt (>) (xs :: int list)"
  by (induction xs) (auto simp: less_le)

text \<open>
  On a host whose offset never changes the streak is the length of the run of
  consecutive calendar days that ends at the latest day: that day and the \<open>r\<close> days
  before it have a key, the day before them has none, and the streak is \<open>r + 1\<close>.
\<close>

lemma computeStreak_fixed_host:
  assumes "dayKeySet madrid dates \<noteq> {}"
  shows "\<exists>r. computeStreak madrid (fixedZone off) dates = Suc r
           \<and> (\<forall>i \<le> r. Max (dayKeySet madrid dates) - int i \<in> dayKeySet madrid dates)
           \<and> Max (dayKeySet madrid dates) - int r - 1 \<notin> dayKeySet madrid dates"
proof -
  let ?s = "collectKeys madrid dates []"
  let ?K = "dayKeySet madrid dates"
  have K: "set ?s = ?K" by (rule dayKeySet_collectKeys)
  with assms have ne: "?s \<noteq> []" by auto
  have d: "distinct (rev (sort ?s))" by (simp add: distinct_collectKeys)
  have "sorted (sort ?s)" by simp
  then have "sorted_wrt (\<ge>) (rev (sort ?s))"
    by (simp add: sorted_wrt_rev)
  with d have sw: "sorted_wrt (>) (rev (sort ?s))"
    by (rule strictly_falling)
  from ne have "length (rev (sort ?s)) \<noteq> 0" by simp
  then obtain a ds where ad: "rev (sort ?s) = a # ds"
    by (cases "rev (sort ?s)") (simp_all del: length_rev length_sort)
  have sa: "set (a # ds) = ?K" using K ad [symmetric] by simp
  have "\<forall>x \<in> set ds. x < a" using sw unfolding ad by simp
  then have "Max (set (a # ds)) = a"
    by (intro Max_eqI) auto
  then have m: "Max ?K = a" using sa by simp
  from walkBack_fixed [of a ds off 1] sw obtain r where
    r: "walkBack (fixedZone off) (a # ds) 1 = 1 + r"
       "\<forall>i \<le> r. a - int i \<in> set (a # ds)" "a - int r - 1 \<notin> set (a # ds)"
    unfolding ad by blast
  have "computeStreak madrid (fixedZone off) dates = Suc r"
    using ne r(1) by (simp add: computeStreak_def Let_def ad)
  with r(2,3) show ?thesis unfolding m sa by blast
qed

text \<open>
  The examples of the specification on a host in UTC: no date or no valid date, one day,
  three consecutive days (1 April, 31 March and 30 March 2024), and two days three
  days apart.
\<close>

lemma computeStreak_examples_utc_host:
  "computeStreak europeMadrid2024 (fixedZone 0) [] = 0
   \<and> computeStreak europeMadrid2024 (fixedZone 0) [Missing, InvalidDate] = 0
   \<and> computeStreak europeMadrid2024 (fixedZone 0) [At 1711965600000] = 1
   \<and> computeStreak europeMadrid2024 (fixedZone 0)
        [At 1711965600000, At 1711879200000, At 1711792800000] = 3
   \<and> computeStreak europeMadrid2024 (fixedZone 0) [At 1711965600000, At 1711706400000] = 1"
  by (simp add: computeStreak_def europeMadrid2024_def fixedZone_def dayKeyMadrid_def
        localTime_def msPerDay_def setAdd_def localMidnight_def utcOfLocal_def)

text \<open>
  C2, at the input where the code leaves the claim: the host runs in Europe/Madrid and
  the two dates are 2024-04-01T10:00:00Z and 2024-03-31T10:00:00Z. Their day keys are
  the consecutive days 2024-04-01 and 2024-03-31 (ordinals 19814 and 19813), and the
  streak is 1: the clocks went forward on 31 March, the two local midnights are 23
  hours apart, and the loop stops. With a host in UTC the streak of the same dates is 2.
\<close>

theorem computeStreak_stops_at_clock_change:
  "collectKeys europeMadrid2024 [At 1711965600000, At 1711879200000] [] = [19814, 19813]
   \<and> localMidnight europeMadrid2024 19814 - localMidnight europeMadrid2024 19813 = 82800000
   \<and> computeStreak europeMadrid2024 europeMadrid2024 [At 1711965600000, At 1711879200000] = 1
   \<and> computeStreak europeMadrid2024 (fixedZone 0) [At 1711965600000, At 1711879200000] = 2"
  by (simp add: computeStreak_def europeMadrid2024_def fixedZone_def dayKeyMadrid_def
        localTime_def msPerDay_def setAdd_def localMidnight_def utcOfLocal_def)

subsection \<open>The weekly window\<close>

lemma set_newSet_acc: "set (fold setAdd xs acc) = set xs \<union> set acc"
  by (induction xs arbitrary: acc) (auto simp: setAdd_def)

lemma distinct_newSet_acc: "distinct acc \<Longrightarrow> distinct (fold setAdd xs acc)"
  by (induction xs arbitrary: acc) (auto simp: setAdd_def)

lemma set_newSet: "set (newSet xs) = set xs"
  by (simp add: newSet_def set_newSet_acc)

lemma length_newSet: "length (newSet xs) = card (set xs)"
proof -
  have "distinct (newSet xs)" by (simp add: newSet_def distinct_newSet_acc)
  then show ?thesis using set_newSet [of xs] by (metis distinct_card)
qed

text \<open>
  C5, as the code has it. The weekly counts are taken over exactly the results whose
  \<open>fecha\<close> is present and not before the start of the window: the bound is inclusive
  and there is no upper bound. The start is the local wall-clock time of the host moved
  seven days back and read as an instant again, which is \<open>hoy\<close> minus 604800000 ms on a
  host whose offset never changes. The two counts are the numbers of distinct non-empty
  exercise identifiers and concepts among those results.
\<close>

theorem week_window:
  "set (resultadosSemana host hoy rs)
     = {r \<in> set rs. \<exists>t. fecha r = Some t \<and> haceUnaSemana host hoy \<le> t}
   \<and> haceUnaSemana host hoy = hoy + utcOffset host hoy - 7 * msPerDay
        - localOffset host (hoy + utcOffset host hoy - 7 * msPerDay)
   \<and> haceUnaSemana (fixedZone off) hoy = hoy - 604800000
   \<and> ejerciciosCompletados (resumen madrid host hoy rs)
        = card {i. i \<noteq> [] \<and> (\<exists>r \<in> set (resultadosSemana host hoy rs). i = idDe (ejercicio_id r))}
   \<and> conceptosDistintos (resumen madrid host hoy rs)
        = card {c. c \<noteq> [] \<and> (\<exists>r \<in> set (resultadosSemana host hoy rs). c = conceptoDe (ejercicio_id r))}"
proof -
  have a: "set (resultadosSemana host hoy rs)
     = {r \<in> set rs. \<exists>t. fecha r = Some t \<and> haceUnaSemana host hoy \<le> t}"
    by (auto simp: resultadosSemana_def enSemana_def split: option.splits)
  have b: "haceUnaSemana host hoy = hoy + utcOffset host hoy - 7 * msPerDay
        - localOffset host (hoy + utcOffset host hoy - 7 * msPerDay)"
    by (simp add: haceUnaSemana_def utcOfLocal_def localTime_def)
  have c: "haceUnaSemana (fixedZone off) hoy = hoy - 604800000"
    by (simp add: haceUnaSemana_def utcOfLocal_def localTime_def fixedZone_def msPerDay_def)
  have d: "ejerciciosCompletados (resumen madrid host hoy rs)
        = card {i. i \<noteq> [] \<and> (\<exists>r \<in> set (resultadosSemana host hoy rs). i = idDe (ejercicio_id r))}"
    unfolding resumen_def ejerciciosUnicosSemana_def
    by (simp add: length_newSet) (rule arg_cong [where f = card], auto)
  have e: "conceptosDistintos (resumen madrid host hoy rs)
        = card {c. c \<noteq> [] \<and> (\<exists>r \<in> set (resultadosSemana host hoy rs). c = conceptoDe (ejercicio_id r))}"
    unfolding resumen_def conceptosSemana_def
    by (simp add: length_newSet) (rule arg_cong [where f = card], auto)
  from a b c d e show ?thesis by blast
qed

text \<open>
  C5 as stated fails: a result stamped exactly seven days before now (host in UTC) is in
  the window and is counted in both counts.
\<close>

theorem week_window_includes_its_start:
  "haceUnaSemana (fixedZone 0) 1711965600000 = 1711360800000
   \<and> resultadosSemana (fixedZone 0) 1711965600000
        [resultadoDe (Populated leyDeOhm) [] (Some 1711360800000) None None]
      = [resultadoDe (Populated leyDeOhm) [] (Some 1711360800000) None None]
   \<and> ejerciciosCompletados (resumen europeMadrid2024 (fixedZone 0) 1711965600000
        [resultadoDe (Populated leyDeOhm) [] (Some 1711360800000) None None]) = 1
   \<and> conceptosDistintos (resumen europeMadrid2024 (fixedZone 0) 1711965600000
        [resultadoDe (Populated leyDeOhm) [] (Some 1711360800000) None None]) = 1"
  by (simp add: haceUnaSemana_def utcOfLocal_def localTime_def fixedZone_def msPerDay_def
        resultadosSemana_def enSemana_def resultadoDe_def resumen_def ejerciciosUnicosSemana_def
        conceptosSemana_def newSet_def setAdd_def idDe_def conceptoDe_def leyDeOhm_def)

lemma resultadosSemana_skips:
  "fecha r = None \<Longrightarrow> resultadosSemana host hoy (xs @ r # ys) = resultadosSemana host hoy (xs @ ys)"
  by (simp add: resultadosSemana_def enSemana_def)

lemma dayKeySet_insert:
  "fechaRacha r = At u \<Longrightarrow>
     dayKeySet madrid (map fechaRacha (xs @ r # ys))
       = insert (localTime madrid u div msPerDay) (dayKeySet madrid (map fechaRacha (xs @ ys)))"
  by (auto simp: dayKeySet_def List.map_filter_def dayKeyMadrid_def)

lemma dayKeySet_skip:
  "fechaRacha r = Missing \<Longrightarrow>
     dayKeySet madrid (map fechaRacha (xs @ r # ys)) = dayKeySet madrid (map fechaRacha (xs @ ys))"
  by (auto simp: dayKeySet_def List.map_filter_def dayKeyMadrid_def)

text \<open>
  C10. The date the streak reads of a result is its \<open>fecha\<close>, else its \<open>createdAt\<close>,
  else its \<open>updatedAt\<close>, else nothing, and the streak is that of these dates; a result
  is in the weekly window exactly when its \<open>fecha\<close> is there and not before the start
  of the window, whatever its other dates. So a result without \<open>fecha\<close> whose
  \<open>createdAt\<close> or \<open>updatedAt\<close> is a date adds the day of that date to the days of the
  streak: on a host whose offset never changes the streak is the length of the run of
  consecutive days that ends at the latest of those days, and on any host it is at least
  1. The result is never in the weekly window, and both weekly counts are the same with
  it as without it.
\<close>

theorem streak_reads_fallback_dates_week_reads_fecha:
  "(fecha r = Some t \<longrightarrow> fechaRacha r = At t)
   \<and> (fecha r = None \<and> createdAt r = Some t \<longrightarrow> fechaRacha r = At t)
   \<and> (fecha r = None \<and> createdAt r = None \<and> updatedAt r = Some t \<longrightarrow> fechaRacha r = At t)
   \<and> (fecha r = None \<and> createdAt r = None \<and> updatedAt r = None \<longrightarrow> fechaRacha r = Missing)
   \<and> rachaDias madrid host rs = computeStreak madrid host (map fechaRacha rs)
   \<and> (enSemana host hoy r \<longleftrightarrow> (\<exists>w. fecha r = Some w \<and> haceUnaSemana host hoy \<le> w))
   \<and> (fecha r = None \<and> (createdAt r = Some t \<or> updatedAt r = Some t) \<longrightarrow>
        (\<exists>u. fechaRacha r = At u
           \<and> (createdAt r = Some u \<or> (createdAt r = None \<and> updatedAt r = Some u))
           \<and> dayKeySet madrid (map fechaRacha (xs @ r # ys))
               = insert (localTime madrid u div msPerDay)
                   (dayKeySet madrid (map fechaRacha (xs @ ys))))
        \<and> (\<exists>n. rachaDias madrid (fixedZone off) (xs @ r # ys) = Suc n
              \<and> (\<forall>i \<le> n. Max (dayKeySet madrid (map fechaRacha (xs @ r # ys))) - int i
                     \<in> dayKeySet madrid (map fechaRacha (xs @ r # ys)))
              \<and> Max (dayKeySet madrid (map fechaRacha (xs @ r # ys))) - int n - 1
                     \<notin> dayKeySet madrid (map fechaRacha (xs @ r # ys)))
        \<and> 1 \<le> rachaDias madrid host (xs @ r # ys)
        \<and> \<not> enSemana host hoy r
        \<and> resultadosSemana host hoy (xs @ r # ys) = resultadosSemana host hoy (xs @ ys)
        \<and> ejerciciosCompletados (resumen madrid host hoy (xs @ r # ys))
            = ejerciciosCompletados (resumen madrid host hoy (xs @ ys))
        \<and> conceptosDistintos (resumen madrid host hoy (xs @ r # ys))
            = conceptosDistintos (resumen madrid host hoy (xs @ ys)))"
proof -
  have 1: "fecha r = Some t \<longrightarrow> fechaRacha r = At t"
    by (simp add: fechaRacha_def)
  have 2: "fecha r = None \<and> createdAt r = Some t \<longrightarrow> fechaRacha r = At t"
    by (simp add: fechaRacha_def)
  have 3: "fecha r = None \<and> createdAt r = None \<and> updatedAt r = Some t \<longrightarrow> fechaRacha r = At t"
    by (simp add: fechaRacha_def)
  have 4: "fecha r = None \<and> createdAt r = None \<and> updatedAt r = None \<longrightarrow> fechaRacha r = Missing"
    by (simp add: fechaRacha_def)
  have 5: "rachaDias madrid host rs = computeStreak madrid host (map fechaRacha rs)"
    by (simp add: rachaDias_def)
  have 6: "enSemana host hoy r \<longleftrightarrow> (\<exists>w. fecha r = Some w \<and> haceUnaSemana host hoy \<le> w)"
    by (simp add: enSemana_def split: option.splits)
  have 7: "(\<exists>u. fechaRacha r = At u
           \<and> (createdAt r = Some u \<or> (createdAt r = None \<and> updatedAt r = Some u))
           \<and> dayKeySet madrid (map fechaRacha (xs @ r # ys))
               = insert (localTime madrid u div msPerDay)
                   (dayKeySet madrid (map fechaRacha (xs @ ys))))
        \<and> (\<exists>n. rachaDias madrid (fixedZone off) (xs @ r # ys) = Suc n
              \<and> (\<forall>i \<le> n. Max (dayKeySet madrid (map fechaRacha (xs @ r # ys))) - int i
                     \<in> dayKeySet madrid (map fechaRacha (xs @ r # ys)))
              \<and> Max (dayKeySet madrid (map fechaRacha (xs @ r # ys))) - int n - 1
                     \<notin> dayKeySet madrid (map fechaRacha (xs @ r # ys)))
        \<and> 1 \<le> rachaDias madrid host (xs @ r # ys)
        \<and> \<not> enSemana host hoy r
        \<and> resultadosSemana host hoy (xs @ r # ys) = resultadosSemana host hoy (xs @ ys)
        \<and> ejerciciosCompletados (resumen madrid host hoy (xs @ r # ys))
            = ejerciciosCompletados (resumen madrid host hoy (xs @ ys))
        \<and> conceptosDistintos (resumen madrid host hoy (xs @ r # ys))
            = conceptosDistintos (resumen madrid host hoy (xs @ ys))"
    if f: "fecha r = None" and c: "createdAt r = Some t \<or> updatedAt r = Some t"
  proof -
    let ?K = "dayKeySet madrid (map fechaRacha (xs @ r # ys))"
    have "\<exists>u. fechaRacha r = At u
        \<and> (createdAt r = Some u \<or> (createdAt r = None \<and> updatedAt r = Some u))"
      using f c by (cases "createdAt r") (auto simp: fechaRacha_def)
    then obtain u where u: "fechaRacha r = At u"
      "createdAt r = Some u \<or> (createdAt r = None \<and> updatedAt r = Some u)"
      by blast
    have k: "?K = insert (localTime madrid u div msPerDay)
        (dayKeySet madrid (map fechaRacha (xs @ ys)))"
      using u(1) by (rule dayKeySet_insert)
    then have ne: "?K \<noteq> {}" by simp
    have run: "\<exists>n. rachaDias madrid (fixedZone off) (xs @ r # ys) = Suc n
        \<and> (\<forall>i \<le> n. Max ?K - int i \<in> ?K) \<and> Max ?K - int n - 1 \<notin> ?K"
      unfolding rachaDias_def using ne by (rule computeStreak_fixed_host)
    have p: "1 \<le> rachaDias madrid host (xs @ r # ys)"
      unfolding rachaDias_def using ne by (rule computeStreak_positive)
    have w: "\<not> enSemana host hoy r" using f by (simp add: enSemana_def)
    have s: "resultadosSemana host hoy (xs @ r # ys) = resultadosSemana host hoy (xs @ ys)"
      using f by (rule resultadosSemana_skips)
    have e: "ejerciciosCompletados (resumen madrid host hoy (xs @ r # ys))
        = ejerciciosCompletados (resumen madrid host hoy (xs @ ys))"
      by (simp add: resumen_def ejerciciosUnicosSemana_def s)
    have d: "conceptosDistintos (resumen madrid host hoy (xs @ r # ys))
        = conceptosDistintos (resumen madrid host hoy (xs @ ys))"
      by (simp add: resumen_def conceptosSemana_def s)
    from u k run p w s e d show ?thesis by blast
  qed
  from 1 2 3 4 5 6 7 show ?thesis by blast
qed

text \<open>
  C10 at three results of 1 April, 31 March and 30 March 2024, seen at noon of 1 April on
  a host in UTC: the first has a \<open>fecha\<close>, the second only a \<open>createdAt\<close> and the
  third only an \<open>updatedAt\<close>, each of another exercise. The streak is 3, and 1 without
  the second result; the week has one exercise and one concept, though the dates of the
  other two lie within it.
\<close>

theorem streak_reads_fallback_dates_week_reads_fecha_witness:
  "fecha (resultadoDe (Populated kirchhoff) [] None (Some 1711879200000) None) = None
   \<and> createdAt (resultadoDe (Populated kirchhoff) [] None (Some 1711879200000) None)
       = Some 1711879200000
   \<and> haceUnaSemana (fixedZone 0) 1711972800000 \<le> 1711879200000
   \<and> rs_rachaDias (resumen europeMadrid2024 (fixedZone 0) 1711972800000
        [resultadoDe (Populated leyDeOhm) [] (Some 1711965600000) None None,
         resultadoDe (Populated kirchhoff) [] None (Some 1711879200000) None,
         resultadoDe (RawId ''e3'') [] None None (Some 1711792800000)]) = 3
   \<and> rs_rachaDias (resumen europeMadrid2024 (fixedZone 0) 1711972800000
        [resultadoDe (Populated leyDeOhm) [] (Some 1711965600000) None None,
         resultadoDe (RawId ''e3'') [] None None (Some 1711792800000)]) = 1
   \<and> ejerciciosCompletados (resumen europeMadrid2024 (fixedZone 0) 1711972800000
        [resultadoDe (Populated leyDeOhm) [] (Some 1711965600000) None None,
         resultadoDe (Populated kirchhoff) [] None (Some 1711879200000) None,
         resultadoDe (RawId ''e3'') [] None None (Some 1711792800000)]) = 1
   \<and> conceptosDistintos (resumen europeMadrid2024 (fixedZone 0) 1711972800000
        [resultadoDe (Populated leyDeOhm) [] (Some 1711965600000) None None,
         resultadoDe (Populated kirchhoff) [] None (Some 1711879200000) None,
         resultadoDe (RawId ''e3'') [] None None (Some 1711792800000)]) = 1"
proof -
  let ?r1 = "resultadoDe (Populated leyDeOhm) [] (Some 1711965600000) None None"
  let ?r2 = "resultadoDe (Populated kirchhoff) [] None (Some 1711879200000) None"
  let ?r3 = "resultadoDe (RawId ''e3'') [] None None (Some 1711792800000)"
  have f: "fecha ?r2 = None" by (simp add: resultadoDe_def)
  have c: "createdAt ?r2 = Some 1711879200000 \<or> updatedAt ?r2 = Some 1711879200000"
    by (simp add: resultadoDe_def)
  have h: "haceUnaSemana (fixedZone 0) 1711972800000 \<le> 1711879200000"
    by (simp add: haceUnaSemana_def utcOfLocal_def localTime_def fixedZone_def msPerDay_def)
  have s3: "rs_rachaDias (resumen europeMadrid2024 (fixedZone 0) 1711972800000 [?r1, ?r2, ?r3]) = 3"
    by (simp add: resumen_def rachaDias_def fechaRacha_def resultadoDe_def computeStreak_def
          europeMadrid2024_def fixedZone_def dayKeyMadrid_def localTime_def msPerDay_def
          setAdd_def localMidnight_def utcOfLocal_def)
  have s1: "rs_rachaDias (resumen europeMadrid2024 (fixedZone 0) 1711972800000 [?r1, ?r3]) = 1"
    by (simp add: resumen_def rachaDias_def fechaRacha_def resultadoDe_def computeStreak_def
          europeMadrid2024_def fixedZone_def dayKeyMadrid_def localTime_def msPerDay_def
          setAdd_def localMidnight_def utcOfLocal_def)
  have e0: "ejerciciosCompletados (resumen europeMadrid2024 (fixedZone 0) 1711972800000 [?r1, ?r3]) = 1"
    by (simp add: resumen_def ejerciciosUnicosSemana_def resultadosSemana_def enSemana_def
          haceUnaSemana_def utcOfLocal_def localTime_def fixedZone_def msPerDay_def
          resultadoDe_def newSet_def setAdd_def idDe_def leyDeOhm_def)
  have c0: "conceptosDistintos (resumen europeMadrid2024 (fixedZone 0) 1711972800000 [?r1, ?r3]) = 1"
    by (simp add: resumen_def conceptosSemana_def resultadosSemana_def enSemana_def
          haceUnaSemana_def utcOfLocal_def localTime_def fixedZone_def msPerDay_def
          resultadoDe_def newSet_def setAdd_def conceptoDe_def leyDeOhm_def)
  from streak_reads_fallback_dates_week_reads_fecha [where r = ?r2 and t = 1711879200000
      and xs = "[?r1]" and ys = "[?r3]" and madrid = europeMadrid2024 and host = "fixedZone 0"
      and hoy = 1711972800000] f c
  have "ejerciciosCompletados (resumen europeMadrid2024 (fixedZone 0) 1711972800000 ([?r1] @ ?r2 # [?r3]))
      = ejerciciosCompletados (resumen europeMadrid2024 (fixedZone 0) 1711972800000 ([?r1] @ [?r3]))"
    and "conceptosDistintos (resumen europeMadrid2024 (fixedZone 0) 1711972800000 ([?r1] @ ?r2 # [?r3]))
      = conceptosDistintos (resumen europeMadrid2024 (fixedZone 0) 1711972800000 ([?r1] @ [?r3]))"
    by blast+
  with e0 c0 have e: "ejerciciosCompletados (resumen europeMadrid2024 (fixedZone 0) 1711972800000 [?r1, ?r2, ?r3]) = 1"
    and d: "conceptosDistintos (resumen europeMadrid2024 (fixedZone 0) 1711972800000 [?r1, ?r2, ?r3]) = 1"
    by simp_all
  have c': "createdAt ?r2 = Some 1711879200000" by (simp add: resultadoDe_def)
  from f c' h s3 s1 e d show ?thesis by blast
qed

subsection \<open>The classifier pipeline\<close>

lemma length_acsFiltrados: "length (acsFiltrados AC_MAP parsed) \<le> 3"
  by (simp add: acsFiltrados_def)

lemma set_acsFiltrados: "set (acsFiltrados AC_MAP parsed) \<subseteq> fst ` set AC_MAP"
  by (auto simp: acsFiltrados_def ALLOWED_AC_IDS_def dest!: in_set_takeD)

lemma not_timeout_errorNoJson: "\<not> isTimeout errorNoJson"
  by (simp add: isTimeout_def errorNoJson_def Let_def orElse_def o_acute_def a_acute_def
        toLowerCase_def lowerChar_def startsWith_def)

lemma clasificar_failure:
  assumes "classifierStatus (clasificar call parse AC_MAP conv) \<noteq> Ok"
  shows "v_analisisIA (clasificar call parse AC_MAP conv) = None
       \<and> v_consejoIA (clasificar call parse AC_MAP conv) = None
       \<and> v_errores (clasificar call parse AC_MAP conv)
           = (if conv = [] then []
              else [sentinela (classifierStatus (clasificar call parse AC_MAP conv) = FailTimeout)])"
  using assms
  by (auto simp: clasificar_def bloqueTry_def Let_def bloqueCatch_def iniciales_def validar_def
        not_timeout_errorNoJson split: llamada.splits option.splits)

lemma length_errores_clasificar:
  "length (v_errores (clasificar call parse AC_MAP conv)) \<le> 3"
  by (auto simp: clasificar_def bloqueTry_def Let_def bloqueCatch_def iniciales_def validar_def
        length_acsFiltrados split: llamada.splits option.splits)

lemma acsFiltrados_ejemplos:
  "acsFiltrados vocabularioEjemplo
     (JObject [(''acs'', JArray [JString ''AC1'', JString ''BOGUS'', JString ''AC2'',
        JString ''AC3'', JString ''AC4''])])
     = [''AC1'', ''AC2'', ''AC3'']"
  "acsFiltrados vocabularioEjemplo (JObject [(''acs'', JArray [JString '' AC1''])]) = [''AC1'']"
  "acsFiltrados vocabularioEjemplo
     (JObject [(''acs'', JArray
        [JString ([CHR 0xC2, CHR 0xA0] @ ''AC2'' @ [CHR 0xE3, CHR 0x80, CHR 0x80]),
         JNumber 7, JString ''ac2''])])
     = [''AC2'']"
proof -
  have a: "acsDe (JObject [(''acs'', JArray xs)]) = xs" for xs
    by (simp add: acsDe_def getProp_def)
  show "acsFiltrados vocabularioEjemplo
     (JObject [(''acs'', JArray [JString ''AC1'', JString ''BOGUS'', JString ''AC2'',
        JString ''AC3'', JString ''AC4''])])
     = [''AC1'', ''AC2'', ''AC3'']"
    unfolding acsFiltrados_def a Let_def
    by (simp add: vocabularioEjemplo_def ALLOWED_AC_IDS_def trim_eval)
  show "acsFiltrados vocabularioEjemplo (JObject [(''acs'', JArray [JString '' AC1''])]) = [''AC1'']"
    unfolding acsFiltrados_def a Let_def
    by (simp add: vocabularioEjemplo_def ALLOWED_AC_IDS_def trim_eval)
  show "acsFiltrados vocabularioEjemplo
     (JObject [(''acs'', JArray
        [JString ([CHR 0xC2, CHR 0xA0] @ ''AC2'' @ [CHR 0xE3, CHR 0x80, CHR 0x80]),
         JNumber 7, JString ''ac2''])])
     = [''AC2'']"
    unfolding acsFiltrados_def a Let_def
    by (simp add: vocabularioEjemplo_def ALLOWED_AC_IDS_def trim_eval)
qed

lemma etiquetas_validar:
  "map etiqueta (v_errores (validar AC_MAP parsed v)) = acsFiltrados AC_MAP parsed"
  by (simp add: validar_def o_def)

text \<open>
  C4, as the code has it. The tags of a parsed reply are the string elements of its
  \<open>acs\<close>, each trimmed of white space, those whose trimmed form is in the vocabulary, in
  order, cut to the first three after the filtering; each is attached in its trimmed
  form with the name the vocabulary gives it. So at most three tags are attached, after
  a parsed reply and after any run of the classifier, all of a parsed reply's in the
  vocabulary. Trimming removes any white-space character from the start and from the
  end, of ASCII or not. The example of the claim: BOGUS and AC4 are dropped. A second
  example: AC2 between a no-break space and an ideographic space is attached as AC2, a
  number and the lower-case \<open>ac2\<close> are dropped.
\<close>

theorem attached_tags:
  "map etiqueta (v_errores (validar AC_MAP parsed v))
     = take 3 (filter (\<lambda>s. s \<in> fst ` set AC_MAP) (map trim (strings (acsDe parsed))))
   \<and> map texto (v_errores (validar AC_MAP parsed v))
     = map (nombreAC AC_MAP) (map etiqueta (v_errores (validar AC_MAP parsed v)))
   \<and> length (v_errores (validar AC_MAP parsed v)) \<le> 3
   \<and> set (map etiqueta (v_errores (validar AC_MAP parsed v))) \<subseteq> fst ` set AC_MAP
   \<and> length (v_errores (clasificar call parse AC_MAP conv)) \<le> 3
   \<and> map (\<lambda>w. trim (w @ s)) whiteSpace = map (\<lambda>w. trim s) whiteSpace
   \<and> map (\<lambda>w. trim (s @ w)) whiteSpace = map (\<lambda>w. trim s) whiteSpace
   \<and> map etiqueta (v_errores (validar vocabularioEjemplo
         (JObject [(''acs'', JArray [JString ''AC1'', JString ''BOGUS'', JString ''AC2'',
            JString ''AC3'', JString ''AC4''])]) v))
     = [''AC1'', ''AC2'', ''AC3'']
   \<and> map etiqueta (v_errores (validar vocabularioEjemplo
         (JObject [(''acs'', JArray
            [JString ([CHR 0xC2, CHR 0xA0] @ ''AC2'' @ [CHR 0xE3, CHR 0x80, CHR 0x80]),
             JNumber 7, JString ''ac2''])]) v))
     = [''AC2'']"
proof -
  have a: "map etiqueta (v_errores (validar AC_MAP parsed v)) = acsFiltrados AC_MAP parsed"
    by (rule etiquetas_validar)
  have b: "acsFiltrados AC_MAP parsed
     = take 3 (filter (\<lambda>s. s \<in> fst ` set AC_MAP) (map trim (strings (acsDe parsed))))"
    by (simp add: acsFiltrados_def ALLOWED_AC_IDS_def)
  have c: "map texto (v_errores (validar AC_MAP parsed v))
     = map (nombreAC AC_MAP) (map etiqueta (v_errores (validar AC_MAP parsed v)))"
    by (simp add: validar_def o_def)
  have d: "length (v_errores (validar AC_MAP parsed v)) \<le> 3"
    by (simp add: validar_def length_acsFiltrados)
  have e: "set (map etiqueta (v_errores (validar AC_MAP parsed v))) \<subseteq> fst ` set AC_MAP"
    unfolding a by (rule set_acsFiltrados)
  have f: "map etiqueta (v_errores (validar vocabularioEjemplo
         (JObject [(''acs'', JArray [JString ''AC1'', JString ''BOGUS'', JString ''AC2'',
            JString ''AC3'', JString ''AC4''])]) v))
     = [''AC1'', ''AC2'', ''AC3'']"
    by (simp only: etiquetas_validar acsFiltrados_ejemplos)
  have g: "map etiqueta (v_errores (validar vocabularioEjemplo
         (JObject [(''acs'', JArray
            [JString ([CHR 0xC2, CHR 0xA0] @ ''AC2'' @ [CHR 0xE3, CHR 0x80, CHR 0x80]),
             JNumber 7, JString ''ac2''])]) v))
     = [''AC2'']"
    by (simp only: etiquetas_validar acsFiltrados_ejemplos)
  have ab: "map etiqueta (v_errores (validar AC_MAP parsed v))
     = take 3 (filter (\<lambda>s. s \<in> fst ` set AC_MAP) (map trim (strings (acsDe parsed))))"
    using a b by simp
  from ab c d e f g length_errores_clasificar [of call parse AC_MAP conv]
    trim_white_start [of s] trim_white_end [of s]
  show ?thesis by blast
qed

text \<open>
  C4 as stated fails: the element \<open>'' AC1''\<close> is not a string of the vocabulary, so none
  of the elements is, yet the tag \<open>''AC1''\<close> is attached.
\<close>

theorem attached_tags_are_trimmed:
  "map etiqueta (v_errores (validar vocabularioEjemplo
       (JObject [(''acs'', JArray [JString '' AC1''])]) iniciales)) = [''AC1'']
   \<and> take 3 (filter (\<lambda>s. s \<in> fst ` set vocabularioEjemplo)
       (strings (acsDe (JObject [(''acs'', JArray [JString '' AC1''])])))) = []"
proof -
  have "map etiqueta (v_errores (validar vocabularioEjemplo
       (JObject [(''acs'', JArray [JString '' AC1''])]) iniciales)) = [''AC1'']"
    by (simp only: etiquetas_validar acsFiltrados_ejemplos)
  moreover have "take 3 (filter (\<lambda>s. s \<in> fst ` set vocabularioEjemplo)
       (strings (acsDe (JObject [(''acs'', JArray [JString '' AC1''])])))) = []"
    by (simp add: acsDe_def getProp_def vocabularioEjemplo_def)
  ultimately show ?thesis by blast
qed

text \<open>
  C3, as the code has it. When a call of the classifier throws, the status is
  \<open>FailTimeout\<close> if the error is a timeout (its message, or \<^verbatim>\<open>String(e)\<close> when it has
  none, holds \<open>timeout\<close> in any case of letters, or its code is \<open>ECONNABORTED\<close>) and
  stays \<open>Skipped\<close>, the value it had, otherwise. After two failed extractions it is
  \<open>FailInvalidJson\<close>. Whenever the status is not \<open>Ok\<close>, the tags are the one sentinel
  \<open>AC_UNK\<close> when the conversation has a message and none when it is empty.
\<close>

theorem classifier_failure_status:
  "(call (promptBase AC_MAP conv) = Throws e \<longrightarrow>
      classifierStatus (clasificar call parse AC_MAP conv)
        = (if isTimeout e then FailTimeout else Skipped)
      \<and> v_errores (clasificar call parse AC_MAP conv)
        = (if conv = [] then [] else [sentinela (isTimeout e)]))
   \<and> (call (promptBase AC_MAP conv) = Returns c1 \<and> extraido parse c1 = None
        \<and> call (promptRetry AC_MAP conv) = Throws e \<longrightarrow>
      classifierStatus (clasificar call parse AC_MAP conv)
        = (if isTimeout e then FailTimeout else Skipped)
      \<and> v_errores (clasificar call parse AC_MAP conv)
        = (if conv = [] then [] else [sentinela (isTimeout e)]))
   \<and> (call (promptBase AC_MAP conv) = Returns c1 \<and> extraido parse c1 = None
        \<and> call (promptRetry AC_MAP conv) = Returns c2 \<and> extraido parse c2 = None \<longrightarrow>
      classifierStatus (clasificar call parse AC_MAP conv) = FailInvalidJson
      \<and> v_errores (clasificar call parse AC_MAP conv)
        = (if conv = [] then [] else [sentinela False]))
   \<and> (classifierStatus (clasificar call parse AC_MAP conv) \<noteq> Ok \<longrightarrow>
      map etiqueta (v_errores (clasificar call parse AC_MAP conv))
        = (if conv = [] then [] else [''AC_UNK'']))
   \<and> (isTimeout e \<longleftrightarrow>
        includesStr (toLowerCase (if message e \<noteq> [] then message e else asString e)) ''timeout''
        \<or> code e = ''ECONNABORTED'')"
proof -
  have 1: "call (promptBase AC_MAP conv) = Throws e \<longrightarrow>
      classifierStatus (clasificar call parse AC_MAP conv)
        = (if isTimeout e then FailTimeout else Skipped)
      \<and> v_errores (clasificar call parse AC_MAP conv)
        = (if conv = [] then [] else [sentinela (isTimeout e)])"
    by (simp add: clasificar_def bloqueTry_def Let_def bloqueCatch_def iniciales_def)
  have 2: "call (promptBase AC_MAP conv) = Returns c1 \<and> extraido parse c1 = None
        \<and> call (promptRetry AC_MAP conv) = Throws e \<longrightarrow>
      classifierStatus (clasificar call parse AC_MAP conv)
        = (if isTimeout e then FailTimeout else Skipped)
      \<and> v_errores (clasificar call parse AC_MAP conv)
        = (if conv = [] then [] else [sentinela (isTimeout e)])"
    by (simp add: clasificar_def bloqueTry_def Let_def bloqueCatch_def iniciales_def)
  have 3: "call (promptBase AC_MAP conv) = Returns c1 \<and> extraido parse c1 = None
        \<and> call (promptRetry AC_MAP conv) = Returns c2 \<and> extraido parse c2 = None \<longrightarrow>
      classifierStatus (clasificar call parse AC_MAP conv) = FailInvalidJson
      \<and> v_errores (clasificar call parse AC_MAP conv)
        = (if conv = [] then [] else [sentinela False])"
    by (simp add: clasificar_def bloqueTry_def Let_def bloqueCatch_def iniciales_def
          not_timeout_errorNoJson)
  have 4: "classifierStatus (clasificar call parse AC_MAP conv) \<noteq> Ok \<longrightarrow>
      map etiqueta (v_errores (clasificar call parse AC_MAP conv))
        = (if conv = [] then [] else [''AC_UNK''])"
    using clasificar_failure [of call parse AC_MAP conv] by (simp add: sentinela_def)
  have 5: "isTimeout e \<longleftrightarrow>
        includesStr (toLowerCase (if message e \<noteq> [] then message e else asString e)) ''timeout''
        \<or> code e = ''ECONNABORTED''"
    by (simp add: isTimeout_def Let_def orElse_def)
  from 1 2 3 4 5 show ?thesis by blast
qed

subsection \<open>Extraction and retry\<close>

lemma matchBraces_Some_iff:
  "matchBraces s = Some m \<longleftrightarrow>
     (\<exists>pre body post. s = pre @ ''{'' @ body @ ''}'' @ post \<and> CHR ''{'' \<notin> set pre
        \<and> CHR ''}'' \<notin> set post \<and> m = ''{'' @ body @ ''}'')"
proof
  assume a: "matchBraces s = Some m"
  then obtain brace after where d: "dropWhile (\<lambda>c. c \<noteq> CHR ''{'') s = brace # after"
    by (auto simp: matchBraces_def split: list.splits)
  then have s: "s = takeWhile (\<lambda>c. c \<noteq> CHR ''{'') s @ brace # after" and b: "brace = CHR ''{''"
    by (auto simp: dropWhile_eq_Cons_conv)
  from a d obtain x xs where e: "dropWhile (\<lambda>c. c \<noteq> CHR ''}'') (rev after) = x # xs"
    and m: "m = brace # rev (x # xs)"
    by (auto simp: matchBraces_def split: list.splits)
  then have r: "rev after = takeWhile (\<lambda>c. c \<noteq> CHR ''}'') (rev after) @ x # xs" and x: "x = CHR ''}''"
    by (auto simp: dropWhile_eq_Cons_conv)
  let ?post = "rev (takeWhile (\<lambda>c. c \<noteq> CHR ''}'') (rev after))"
  from r have "rev (rev after) = rev (takeWhile (\<lambda>c. c \<noteq> CHR ''}'') (rev after) @ x # xs)"
    by simp
  then have af: "after = rev xs @ ''}'' @ ?post" using x by simp
  have p1: "CHR ''{'' \<notin> set (takeWhile (\<lambda>c. c \<noteq> CHR ''{'') s)"
    by (auto dest: set_takeWhileD)
  have p2: "CHR ''}'' \<notin> set ?post" by (auto dest: set_takeWhileD)
  have "s = takeWhile (\<lambda>c. c \<noteq> CHR ''{'') s @ ''{'' @ rev xs @ ''}'' @ ?post"
    using s b af by simp
  moreover have "m = ''{'' @ rev xs @ ''}''" using m b x by simp
  ultimately show "\<exists>pre body post. s = pre @ ''{'' @ body @ ''}'' @ post \<and> CHR ''{'' \<notin> set pre
        \<and> CHR ''}'' \<notin> set post \<and> m = ''{'' @ body @ ''}''"
    using p1 p2 by blast
next
  assume "\<exists>pre body post. s = pre @ ''{'' @ body @ ''}'' @ post \<and> CHR ''{'' \<notin> set pre
        \<and> CHR ''}'' \<notin> set post \<and> m = ''{'' @ body @ ''}''"
  then obtain pre body post where s: "s = pre @ ''{'' @ body @ ''}'' @ post"
    and p: "CHR ''{'' \<notin> set pre" "CHR ''}'' \<notin> set post" and m: "m = ''{'' @ body @ ''}''"
    by blast
  have d: "dropWhile (\<lambda>c. c \<noteq> CHR ''{'') s = CHR ''{'' # (body @ ''}'' @ post)"
  proof -
    have "\<forall>x \<in> set pre. x \<noteq> CHR ''{''" using p(1) by blast
    then show ?thesis unfolding s by (simp add: dropWhile_append3)
  qed
  have e: "dropWhile (\<lambda>c. c \<noteq> CHR ''}'') (rev post @ CHR ''}'' # rev body) = CHR ''}'' # rev body"
  proof -
    have "\<forall>x \<in> set (rev post). x \<noteq> CHR ''}''" using p(2) by auto
    then show ?thesis by (simp add: dropWhile_append3)
  qed
  show "matchBraces s = Some m"
    unfolding matchBraces_def d by (simp add: e m)
qed

lemma matchBraces_None:
  "CHR ''{'' \<notin> set s \<Longrightarrow> matchBraces s = None"
proof -
  assume "CHR ''{'' \<notin> set s"
  then have "\<forall>x \<in> set s. x \<noteq> CHR ''{''" by blast
  then have d: "dropWhile (\<lambda>c. c \<noteq> CHR ''{'') s = []"
    by (simp add: dropWhile_eq_Nil_conv)
  show ?thesis unfolding matchBraces_def d by simp
qed

lemma set_cleanFences: "set (cleanFences s) \<subseteq> set s"
proof -
  have "set (stripOpeningFence s) \<subseteq> set s"
    by (auto simp: stripOpeningFence_def Let_def dest!: in_set_dropD)
  moreover have "set (stripClosingFence u) \<subseteq> set u" for u
    by (auto simp: stripClosingFence_def dest!: in_set_takeD)
  ultimately show ?thesis
    unfolding cleanFences_def using set_trim by blast
qed

lemma startsWith_brace: "startsWith s ''{'' \<longleftrightarrow> (\<exists>r. s = CHR ''{'' # r)"
  by (cases s) (auto simp: startsWith_def)

lemma endsWith_brace: "endsWith s ''}'' \<longleftrightarrow> (\<exists>r. s = r @ ''}'')"
proof -
  have "endsWith s ''}'' \<longleftrightarrow> (\<exists>r. rev s = CHR ''}'' # r)"
    by (cases "rev s") (auto simp: endsWith_def startsWith_def)
  also have "\<dots> \<longleftrightarrow> (\<exists>r. s = r @ ''}'')"
    by (metis rev_eq_Cons_iff rev_rev_ident append_Nil rev.simps)
  finally show ?thesis .
qed

lemma braced:
  assumes "startsWith obj ''{''" "endsWith obj ''}''"
  obtains mid where "obj = CHR ''{'' # mid @ ''}''"
proof -
  from assms(1) obtain r where r1: "obj = CHR ''{'' # r"
    unfolding startsWith_brace by blast
  from assms(2) obtain r' where r2: "obj = r' @ ''}''"
    unfolding endsWith_brace by blast
  note r = r1 r2
  then have "r' \<noteq> []" by auto
  then obtain x mid where "r' = x # mid" by (cases r') auto
  with r have "obj = CHR ''{'' # mid @ ''}''" by auto
  then show ?thesis by (rule that)
qed

lemma cleanFences_fenced:
  "cleanFences (fenced (CHR ''{'' # mid @ ''}'')) = CHR ''{'' # mid @ ''}''"
proof -
  have o: "stripOpeningFence (fenced (CHR ''{'' # mid @ ''}''))
       = CHR 0x0A # CHR ''{'' # mid @ ''}'' @ [CHR 0x0A] @ backticks"
    by (simp add: stripOpeningFence_def fenced_def backticks_def startsWith_def Let_def
          toLowerCase_def lowerChar_def)
  have c: "stripClosingFence (CHR 0x0A # CHR ''{'' # mid @ ''}'' @ [CHR 0x0A] @ backticks)
       = CHR 0x0A # CHR ''{'' # mid @ [CHR ''}'', CHR 0x0A]"
    by (simp add: stripClosingFence_def backticks_def endsWith_def startsWith_def)
  have t: "trim (CHR 0x0A # CHR ''{'' # mid @ [CHR ''}'', CHR 0x0A]) = CHR ''{'' # mid @ [CHR ''}'']"
    by (rule trim_braced_lines)
  show ?thesis unfolding cleanFences_def o c t by simp
qed

lemma trim_fenced: "trim (fenced obj) = fenced obj"
proof -
  have "fenced obj = CHR 0x60 # (CHR 0x60 # CHR 0x60 # ''json'' @ [CHR 0x0A] @ obj @ [CHR 0x0A]
          @ [CHR 0x60, CHR 0x60]) @ [CHR 0x60]"
    by (simp add: fenced_def backticks_def)
  moreover have "trim (CHR 0x60 # (CHR 0x60 # CHR 0x60 # ''json'' @ [CHR 0x0A] @ obj @ [CHR 0x0A]
          @ [CHR 0x60, CHR 0x60]) @ [CHR 0x60])
       = CHR 0x60 # (CHR 0x60 # CHR 0x60 # ''json'' @ [CHR 0x0A] @ obj @ [CHR 0x0A]
          @ [CHR 0x60, CHR 0x60]) @ [CHR 0x60]"
    by (rule trim_ticks)
  ultimately show ?thesis by simp
qed

lemma extract_fenced:
  assumes "startsWith obj ''{''" "endsWith obj ''}''"
  shows "extractJsonObject parse (Str (fenced obj)) = parse obj"
proof -
  from assms obtain mid where obj: "obj = CHR ''{'' # mid @ ''}''" by (rule braced)
  have ne: "fenced obj \<noteq> []" by (simp add: fenced_def backticks_def)
  have cl: "cleanFences (fenced obj) = obj" unfolding obj by (rule cleanFences_fenced)
  have "obj = [] @ ''{'' @ mid @ ''}'' @ []" using obj by simp
  then have mb: "matchBraces obj = Some obj"
    unfolding matchBraces_Some_iff using obj by (intro exI [of _ "[]"] exI [of _ mid]) simp
  show ?thesis
    using assms ne
    by (cases "parse obj") (simp_all add: extractJsonObject_def trim_fenced cl mb Let_def)
qed

lemma extract_no_brace:
  assumes "CHR ''{'' \<notin> set t"
  shows "extractJsonObject parse (Str t) = None"
proof -
  have "set (cleanFences (trim t)) \<subseteq> set t"
    using set_cleanFences [of "trim t"] set_trim [of t] by blast
  with assms have n: "CHR ''{'' \<notin> set (cleanFences (trim t))" by blast
  then have "\<not> startsWith (cleanFences (trim t)) ''{''"
    by (auto simp: startsWith_brace)
  with n show ?thesis
    by (simp add: extractJsonObject_def Let_def matchBraces_None)
qed

lemma llamadas_retry:
  "call (promptBase AC_MAP conv) = Returns c1 \<Longrightarrow> extractJsonObject parse c1 = None \<Longrightarrow>
     llamadas (clasificar call parse AC_MAP conv) = [promptBase AC_MAP conv, promptRetry AC_MAP conv]"
  by (simp add: clasificar_def bloqueTry_def Let_def extraido_def iniciales_def bloqueCatch_def
        validar_def split: llamada.splits option.splits)

lemma llamadas_once:
  "call (promptBase AC_MAP conv) = Returns c1 \<Longrightarrow> extractJsonObject parse c1 = Some p \<Longrightarrow>
     truthy p \<Longrightarrow> llamadas (clasificar call parse AC_MAP conv) = [promptBase AC_MAP conv]"
  by (simp add: clasificar_def bloqueTry_def Let_def extraido_def iniciales_def validar_def)

text \<open>
  What \<open>extractJsonObject\<close> does. It gives \<^verbatim>\<open>null\<close> for what is not a string or is
  blank. Otherwise it strips the code fence; when what remains starts and ends with a
  brace and parses, the result is that value; otherwise the result is the parse of the
  match of \<^verbatim>\<open>/\{[\s\S]*\}/\<close>, the text from the first opening brace to the last
  closing brace after it, and \<^verbatim>\<open>null\<close> when there is no such text or it does not
  parse. A fenced object is handed to \<open>parse\<close> as it is, a text without a brace gives
  \<^verbatim>\<open>null\<close>, and \<^verbatim>\<open>null\<close> from the first reply makes the second call, while an object
  from the first reply makes no second call.
\<close>

lemma extractJsonObject_cases:
  "extractJsonObject parse NotAString = None
   \<and> (trim t = [] \<longrightarrow> extractJsonObject parse (Str t) = None)
   \<and> (trim t \<noteq> [] \<longrightarrow>
        extractJsonObject parse (Str t)
          = (if startsWith (cleanFences (trim t)) ''{'' \<and> endsWith (cleanFences (trim t)) ''}''
                \<and> parse (cleanFences (trim t)) \<noteq> None
             then parse (cleanFences (trim t))
             else case matchBraces (cleanFences (trim t)) of
                    None \<Rightarrow> None
                  | Some m \<Rightarrow> parse m))
   \<and> (matchBraces s = Some m \<longleftrightarrow>
        (\<exists>pre body post. s = pre @ ''{'' @ body @ ''}'' @ post \<and> CHR ''{'' \<notin> set pre
           \<and> CHR ''}'' \<notin> set post \<and> m = ''{'' @ body @ ''}''))
   \<and> (startsWith obj ''{'' \<and> endsWith obj ''}'' \<longrightarrow>
        extractJsonObject parse (Str (fenced obj)) = parse obj)
   \<and> (CHR ''{'' \<notin> set t \<longrightarrow> extractJsonObject parse (Str t) = None)
   \<and> extractJsonObject parse (Str ''no json here'') = None
   \<and> (call (promptBase AC_MAP conv) = Returns c1 \<and> extractJsonObject parse c1 = None \<longrightarrow>
        llamadas (clasificar call parse AC_MAP conv)
          = [promptBase AC_MAP conv, promptRetry AC_MAP conv])
   \<and> (call (promptBase AC_MAP conv) = Returns c1 \<and> extractJsonObject parse c1 = Some p
        \<and> truthy p \<longrightarrow>
        llamadas (clasificar call parse AC_MAP conv) = [promptBase AC_MAP conv])"
proof -
  have 1: "extractJsonObject parse NotAString = None"
    by (simp add: extractJsonObject_def)
  have 2: "trim t = [] \<longrightarrow> extractJsonObject parse (Str t) = None"
    by (simp add: extractJsonObject_def)
  have 3: "trim t \<noteq> [] \<longrightarrow>
        extractJsonObject parse (Str t)
          = (if startsWith (cleanFences (trim t)) ''{'' \<and> endsWith (cleanFences (trim t)) ''}''
                \<and> parse (cleanFences (trim t)) \<noteq> None
             then parse (cleanFences (trim t))
             else case matchBraces (cleanFences (trim t)) of
                    None \<Rightarrow> None
                  | Some m \<Rightarrow> parse m)"
    by (auto simp: extractJsonObject_def Let_def split: option.splits)
  have 7: "extractJsonObject parse (Str ''no json here'') = None"
    by (rule extract_no_brace) simp
  from 1 2 3 7 matchBraces_Some_iff [of s m] extract_fenced [of obj parse]
    extract_no_brace [of t parse] llamadas_retry [of call AC_MAP conv c1 parse]
    llamadas_once [of call AC_MAP conv c1 parse p]
  show ?thesis by blast
qed

text \<open>
  The two examples of the specification, with a \<open>parse\<close> that reads the one object: the
  fenced reply gives the object and no second call; \<open>no json here\<close> gives \<^verbatim>\<open>null\<close> and
  the second call.
\<close>

lemma extractJsonObject_examples:
  \<open>fenced objetoEjemplo = ''```json\<newline>{"acs":["AC1"]}\<newline>```''
   \<and> extractJsonObject parseEjemplo (Str (fenced objetoEjemplo))
       = Some (JObject [(''acs'', JArray [JString ''AC1''])])
   \<and> extractJsonObject parseEjemplo (Str ''no json here'') = None
   \<and> llamadas (clasificar (\<lambda>_. Returns (Str ''no json here'')) parseEjemplo vocabularioEjemplo
        unMensaje)
       = [promptBase vocabularioEjemplo unMensaje, promptRetry vocabularioEjemplo unMensaje]
   \<and> llamadas (clasificar (\<lambda>_. Returns (Str (fenced objetoEjemplo))) parseEjemplo
        vocabularioEjemplo unMensaje)
       = [promptBase vocabularioEjemplo unMensaje]\<close>
proof -
  have f: \<open>fenced objetoEjemplo = ''```json\<newline>{"acs":["AC1"]}\<newline>```''\<close>
    by (simp add: fenced_def objetoEjemplo_def backticks_def)
  have b: "startsWith objetoEjemplo ''{'' \<and> endsWith objetoEjemplo ''}''"
    by (simp add: startsWith_def endsWith_def objetoEjemplo_def)
  have n: "CHR ''{'' \<notin> set ''no json here''" by simp
  note t = extractJsonObject_cases [where parse = parseEjemplo and obj = objetoEjemplo
      and t = "''no json here''" and AC_MAP = vocabularioEjemplo and conv = unMensaje]
  have e1: "extractJsonObject parseEjemplo (Str (fenced objetoEjemplo))
       = Some (JObject [(''acs'', JArray [JString ''AC1''])])"
    using t b by (simp add: parseEjemplo_def)
  have e2: "extractJsonObject parseEjemplo (Str ''no json here'') = None"
    using t n by blast
  have r: "llamadas (clasificar (\<lambda>_. Returns (Str ''no json here'')) parseEjemplo
             vocabularioEjemplo unMensaje)
       = [promptBase vocabularioEjemplo unMensaje, promptRetry vocabularioEjemplo unMensaje]"
    using t [where call = "\<lambda>_. Returns (Str ''no json here'')" and ?c1.0 = "Str ''no json here''"]
      e2 by blast
  have o: "llamadas (clasificar (\<lambda>_. Returns (Str (fenced objetoEjemplo))) parseEjemplo
        vocabularioEjemplo unMensaje)
       = [promptBase vocabularioEjemplo unMensaje]"
    using t [where call = "\<lambda>_. Returns (Str (fenced objetoEjemplo))"
        and ?c1.0 = "Str (fenced objetoEjemplo)"
        and p = "JObject [(''acs'', JArray [JString ''AC1''])]"] e1
    by (simp add: truthy_def)
  from f e1 e2 r o show ?thesis by blast
qed

text \<open>
  The fence stripping by itself: the opening back-ticks go with a \<open>json\<close> in any case of
  letters after them, the closing back-ticks go, and a text without them is kept.
\<close>

lemma toLowerCase_JSON: "toLowerCase ''JSON'' = ''json''" "toLowerCase ''Json'' = ''json''"
  by code_simp+

lemma stripOpeningFence_cases:
  "stripOpeningFence (backticks @ ''json'' @ r) = r"
  "stripOpeningFence (backticks @ ''JSON'' @ r) = r"
  "stripOpeningFence (backticks @ ''Json'' @ r) = r"
  "stripOpeningFence (backticks @ CHR 0x0A # r) = CHR 0x0A # r"
  "\<not> startsWith s backticks \<Longrightarrow> stripOpeningFence s = s"
proof -
  show "stripOpeningFence (backticks @ ''json'' @ r) = r"
    by (simp add: stripOpeningFence_def backticks_def startsWith_def Let_def toLowerCase_def
          lowerChar_def)
  show "stripOpeningFence (backticks @ ''JSON'' @ r) = r"
    by (simp add: stripOpeningFence_def backticks_def startsWith_def Let_def
          toLowerCase_JSON [unfolded toLowerCase_def, simplified] toLowerCase_def)
  show "stripOpeningFence (backticks @ ''Json'' @ r) = r"
    by (simp add: stripOpeningFence_def backticks_def startsWith_def Let_def
          toLowerCase_JSON [unfolded toLowerCase_def, simplified] toLowerCase_def)
  show "stripOpeningFence (backticks @ CHR 0x0A # r) = CHR 0x0A # r"
    by (simp add: stripOpeningFence_def backticks_def startsWith_def Let_def toLowerCase_def
          lowerChar_def)
  show "\<not> startsWith s backticks \<Longrightarrow> stripOpeningFence s = s"
    by (simp add: stripOpeningFence_def)
qed

lemma stripClosingFence_cases:
  "stripClosingFence (r @ backticks) = r"
  "\<not> endsWith s backticks \<Longrightarrow> stripClosingFence s = s"
  by (simp_all add: stripClosingFence_def backticks_def endsWith_def startsWith_def)

lemma cleanFences_ejemplo:
  \<open>cleanFences (fenced objetoEjemplo) = ''{"acs":["AC1"]}''\<close>
  \<open>cleanFences ''```{"acs":["AC1"]}```'' = ''{"acs":["AC1"]}''\<close>
  \<open>cleanFences ''{"acs":["AC1"]}'' = ''{"acs":["AC1"]}''\<close>
proof -
  have b: "objetoEjemplo = CHR ''{'' # tl (butlast objetoEjemplo) @ ''}''"
    by (simp add: objetoEjemplo_def)
  show \<open>cleanFences (fenced objetoEjemplo) = ''{"acs":["AC1"]}''\<close>
    using cleanFences_fenced [of "tl (butlast objetoEjemplo)"] b
    by (simp add: objetoEjemplo_def)
  show \<open>cleanFences ''```{"acs":["AC1"]}```'' = ''{"acs":["AC1"]}''\<close>
    by (simp add: cleanFences_def stripOpeningFence_def stripClosingFence_def backticks_def
          startsWith_def endsWith_def Let_def toLowerCase_def lowerChar_def trim_eval)
  show \<open>cleanFences ''{"acs":["AC1"]}'' = ''{"acs":["AC1"]}''\<close>
    by (simp add: cleanFences_def stripOpeningFence_def stripClosingFence_def backticks_def
          startsWith_def endsWith_def Let_def trim_eval)
qed

text \<open>
  C6, at an input where the code leaves the claim: the reply is the object followed by
  a remark that has braces of its own. The first block in braces is the object, and it
  parses. The match runs on to the last closing brace, that text does not parse, and
  \<open>extractJsonObject\<close> gives \<^verbatim>\<open>null\<close>; when both replies are this text the request ends
  with \<open>FailInvalidJson\<close> and the sentinel tag.
\<close>

theorem extractJsonObject_misses_first_object:
  \<open>respuestaConNota = objetoEjemplo @ '' (formato: {})''
   \<and> parseEjemplo objetoEjemplo = Some (JObject [(''acs'', JArray [JString ''AC1''])])
   \<and> cleanFences (trim respuestaConNota) = respuestaConNota
   \<and> matchBraces respuestaConNota = Some ''{"acs":["AC1"]} (formato: {}''
   \<and> extractJsonObject parseEjemplo (Str respuestaConNota) = None
   \<and> classifierStatus (clasificar (\<lambda>_. Returns (Str respuestaConNota)) parseEjemplo
        vocabularioEjemplo unMensaje) = FailInvalidJson
   \<and> map etiqueta (v_errores (clasificar (\<lambda>_. Returns (Str respuestaConNota)) parseEjemplo
        vocabularioEjemplo unMensaje)) = [''AC_UNK'']\<close>
proof -
  have 1: \<open>respuestaConNota = objetoEjemplo @ '' (formato: {})''\<close>
    by (simp add: respuestaConNota_def objetoEjemplo_def)
  have 2: "parseEjemplo objetoEjemplo = Some (JObject [(''acs'', JArray [JString ''AC1''])])"
    by (simp add: parseEjemplo_def)
  have t: "trim respuestaConNota = respuestaConNota"
    by (simp add: respuestaConNota_def trim_eval)
  have c: "cleanFences respuestaConNota = respuestaConNota"
    by (simp add: respuestaConNota_def cleanFences_def stripOpeningFence_def
          stripClosingFence_def backticks_def startsWith_def endsWith_def trim_eval)
  have 4: \<open>matchBraces respuestaConNota = Some ''{"acs":["AC1"]} (formato: {}''\<close>
    by (simp add: respuestaConNota_def matchBraces_def)
  have p: \<open>parseEjemplo ''{"acs":["AC1"]} (formato: {}'' = None\<close>
    by (simp add: parseEjemplo_def objetoEjemplo_def)
  have ne: "respuestaConNota \<noteq> []" by (simp add: respuestaConNota_def)
  have e: "endsWith respuestaConNota ''}'' = False"
    by (simp add: respuestaConNota_def endsWith_def startsWith_def)
  have 5: "extractJsonObject parseEjemplo (Str respuestaConNota) = None"
    by (simp add: extractJsonObject_def t c 4 p ne e Let_def)
  then have x: "extraido parseEjemplo (Str respuestaConNota) = None"
    by (simp add: extraido_def)
  have 6: "classifierStatus (clasificar (\<lambda>_. Returns (Str respuestaConNota)) parseEjemplo
        vocabularioEjemplo unMensaje) = FailInvalidJson"
    by (simp add: clasificar_def bloqueTry_def Let_def x bloqueCatch_def not_timeout_errorNoJson)
  have 7: "map etiqueta (v_errores (clasificar (\<lambda>_. Returns (Str respuestaConNota)) parseEjemplo
        vocabularioEjemplo unMensaje)) = [''AC_UNK'']"
    by (simp add: clasificar_def bloqueTry_def Let_def x bloqueCatch_def not_timeout_errorNoJson
          unMensaje_def sentinela_def)
  from 1 2 t c 4 5 6 7 show ?thesis by simp
qed

subsection \<open>Failures of the classifier, and the finalize handler\<close>

lemma timeout_errorTimeout: "isTimeout errorTimeout"
  by (simp add: isTimeout_def errorTimeout_def)

lemma not_timeout_errorRed: "\<not> isTimeout errorRed"
  by (simp add: isTimeout_def errorRed_def Let_def orElse_def toLowerCase_def lowerChar_def
        startsWith_def)

text \<open>
  C3 as stated fails: a call that throws an error that is no timeout (a refused
  connection) leaves the status \<open>Skipped\<close>, not \<open>FailInvalidJson\<close>; the sentinel is
  attached all the same.
\<close>

theorem network_error_leaves_skipped:
  "\<not> isTimeout errorRed
   \<and> classifierStatus (clasificar (\<lambda>_. Throws errorRed) parseEjemplo vocabularioEjemplo unMensaje)
       = Skipped
   \<and> map etiqueta
        (v_errores (clasificar (\<lambda>_. Throws errorRed) parseEjemplo vocabularioEjemplo unMensaje))
       = [''AC_UNK'']"
  by (simp add: not_timeout_errorRed clasificar_def bloqueTry_def Let_def bloqueCatch_def
        iniciales_def unMensaje_def sentinela_def)

text \<open>
  The cases of C3 at concrete classifiers: a first call that times out; a first reply
  that is no string and a second call that is refused; two replies without JSON, for a
  conversation of one message and for an empty one.
\<close>

theorem classifier_failure_status_witness:
  "classifierStatus (clasificar (\<lambda>_. Throws errorTimeout) parseEjemplo vocabularioEjemplo unMensaje)
     = FailTimeout
   \<and> v_errores (clasificar (\<lambda>_. Throws errorTimeout) parseEjemplo vocabularioEjemplo unMensaje)
     = [sentinela True]
   \<and> classifierStatus (clasificar
        (\<lambda>p. case p of PromptBase _ _ \<Rightarrow> Returns NotAString | PromptRetry _ _ \<Rightarrow> Throws errorRed)
        parseEjemplo vocabularioEjemplo unMensaje)
     = Skipped
   \<and> classifierStatus (clasificar (\<lambda>_. Returns (Str ''no json here'')) parseEjemplo
        vocabularioEjemplo unMensaje)
     = FailInvalidJson
   \<and> map etiqueta (v_errores (clasificar (\<lambda>_. Returns (Str ''no json here'')) parseEjemplo
        vocabularioEjemplo unMensaje))
     = [''AC_UNK'']
   \<and> v_errores (clasificar (\<lambda>_. Returns (Str ''no json here'')) parseEjemplo
        vocabularioEjemplo [])
     = []"
proof -
  have x: "extraido parseEjemplo NotAString = None"
    by (simp add: extraido_def extractJsonObject_def)
  have y: "extraido parseEjemplo (Str ''no json here'') = None"
    by (simp add: extraido_def extract_no_brace)
  have a: "classifierStatus
        (clasificar (\<lambda>_. Throws errorTimeout) parseEjemplo vocabularioEjemplo unMensaje)
      = FailTimeout
    \<and> v_errores (clasificar (\<lambda>_. Throws errorTimeout) parseEjemplo vocabularioEjemplo unMensaje)
      = [sentinela True]"
    using classifier_failure_status [where call = "\<lambda>_. Throws errorTimeout"
        and AC_MAP = vocabularioEjemplo and conv = unMensaje and e = errorTimeout
        and parse = parseEjemplo]
    by (simp add: timeout_errorTimeout unMensaje_def)
  have b: "classifierStatus (clasificar
        (\<lambda>p. case p of PromptBase _ _ \<Rightarrow> Returns NotAString | PromptRetry _ _ \<Rightarrow> Throws errorRed)
        parseEjemplo vocabularioEjemplo unMensaje)
     = Skipped"
    using classifier_failure_status [where call =
          "\<lambda>p. case p of PromptBase _ _ \<Rightarrow> Returns NotAString | PromptRetry _ _ \<Rightarrow> Throws errorRed"
        and AC_MAP = vocabularioEjemplo and conv = unMensaje and e = errorRed
        and parse = parseEjemplo and ?c1.0 = NotAString] x
    by (simp add: not_timeout_errorRed promptBase_def promptRetry_def)
  have c: "classifierStatus (clasificar (\<lambda>_. Returns (Str ''no json here'')) parseEjemplo
        vocabularioEjemplo unMensaje)
     = FailInvalidJson
   \<and> map etiqueta (v_errores (clasificar (\<lambda>_. Returns (Str ''no json here'')) parseEjemplo
        vocabularioEjemplo unMensaje))
     = [''AC_UNK'']"
    using classifier_failure_status [where call = "\<lambda>_. Returns (Str ''no json here'')"
        and AC_MAP = vocabularioEjemplo and conv = unMensaje
        and parse = parseEjemplo and ?c1.0 = "Str ''no json here''"
        and ?c2.0 = "Str ''no json here''"] y
    by (simp add: unMensaje_def sentinela_def)
  have d: "v_errores (clasificar (\<lambda>_. Returns (Str ''no json here'')) parseEjemplo
        vocabularioEjemplo [])
     = []"
    using classifier_failure_status [where call = "\<lambda>_. Returns (Str ''no json here'')"
        and AC_MAP = vocabularioEjemplo and conv = "[]"
        and parse = parseEjemplo and ?c1.0 = "Str ''no json here''"
        and ?c2.0 = "Str ''no json here''"] y
    by simp
  from a b c d show ?thesis by blast
qed

text \<open>
  C1. For a request with valid identifiers whose interaction exists, and a store that
  saves, whatever the classifier does (it answers with an object, answers twice with
  something else, times out, throws anything else): the route answers 200 and saves
  exactly one result, built from the request and the length of the conversation, and the
  answer reports that result. When the status is not \<open>Ok\<close> it is one of the three
  others, the result has no analysis and no advice, and its tags are the sentinel
  \<open>AC_UNK\<close> (none for an empty conversation).
\<close>

theorem finalizar_saves_whatever_the_classifier_does:
  assumes ids: "userId body \<noteq> []" "exerciseId body \<noteq> []" "interaccionId body \<noteq> []"
    and valid: "f_isValid env (userId body)" "f_isValid env (exerciseId body)"
      "f_isValid env (interaccionId body)"
    and found: "findById env (interaccionId body) = Inr (Some doc)"
    and store: "\<forall>d. save env d = Inr ()"
  shows "\<exists>st nuevo.
      respuestaDe (finalizar env body)
        = Json200 \<lparr>f_classifierStatus = st,
            saved = \<lparr>g_numMensajes = numMensajes nuevo,
                     g_analisisIA = (analisisIA nuevo \<noteq> None),
                     g_consejoIA = (consejoIA nuevo \<noteq> None),
                     g_errores = map etiqueta (errores nuevo)\<rparr>\<rparr>
    \<and> guardados (finalizar env body) = [nuevo]
    \<and> usuario_id nuevo = userId body
    \<and> ejercicio_id nuevo = RawId (exerciseId body)
    \<and> interaccion_id nuevo = interaccionId body
    \<and> numMensajes nuevo = (case conversacion doc of Some c \<Rightarrow> length c | None \<Rightarrow> 0)
    \<and> st = classifierStatus (clasificar (callClassifier env) (jsonParse env) (acData env)
              (case conversacion doc of Some c \<Rightarrow> c | None \<Rightarrow> []))
    \<and> (st \<noteq> Ok \<longrightarrow>
          st \<in> {FailTimeout, FailInvalidJson, Skipped}
          \<and> analisisIA nuevo = None \<and> consejoIA nuevo = None
          \<and> map etiqueta (errores nuevo) = (if numMensajes nuevo = 0 then [] else [''AC_UNK'']))"
proof -
  let ?conv = "case conversacion doc of Some c \<Rightarrow> c | None \<Rightarrow> []"
  let ?v = "clasificar (callClassifier env) (jsonParse env) (acData env) ?conv"
  let ?nuevo = "\<lparr>usuario_id = userId body, ejercicio_id = RawId (exerciseId body),
      interaccion_id = interaccionId body,
      resueltoALaPrimera = (case c_resueltoALaPrimera body of None \<Rightarrow> False | Some b \<Rightarrow> b),
      numMensajes = length ?conv, analisisIA = v_analisisIA ?v, consejoIA = v_consejoIA ?v,
      errores = v_errores ?v\<rparr>"
  from store have s: "save env ?nuevo = Inr ()" by blast
  have f: "finalizar env body =
      \<lparr>respuestaDe = Json200 \<lparr>f_classifierStatus = classifierStatus ?v,
          saved = \<lparr>g_numMensajes = length ?conv, g_analisisIA = (v_analisisIA ?v \<noteq> None),
                   g_consejoIA = (v_consejoIA ?v \<noteq> None),
                   g_errores = map etiqueta (v_errores ?v)\<rparr>\<rparr>,
       guardados = [?nuevo], enviados = llamadas ?v\<rparr>"
    using ids valid found s by (simp add: finalizar_def Let_def)
  have n: "length ?conv = (case conversacion doc of Some c \<Rightarrow> length c | None \<Rightarrow> 0)"
    by (simp split: option.splits)
  have k: "classifierStatus ?v \<noteq> Ok \<longrightarrow>
          classifierStatus ?v \<in> {FailTimeout, FailInvalidJson, Skipped}
          \<and> v_analisisIA ?v = None \<and> v_consejoIA ?v = None
          \<and> map etiqueta (v_errores ?v) = (if length ?conv = 0 then [] else [''AC_UNK''])"
    using clasificar_failure [of "callClassifier env" "jsonParse env" "acData env" ?conv]
    by (cases "classifierStatus ?v") (simp_all add: sentinela_def)
  show ?thesis
    by (rule exI [of _ "classifierStatus ?v"], rule exI [of _ ?nuevo])
       (use f n k in simp)
qed

text \<open>C1 at a classifier that times out, for a conversation of one message.\<close>

theorem finalizar_saves_whatever_the_classifier_does_witness:
  "respuestaDe (finalizar (entornoEjemplo (\<lambda>_. Throws errorTimeout)) cuerpoEjemplo)
     = Json200 \<lparr>f_classifierStatus = FailTimeout,
         saved = \<lparr>g_numMensajes = 1, g_analisisIA = False, g_consejoIA = False,
                  g_errores = [''AC_UNK'']\<rparr>\<rparr>
   \<and> length (guardados (finalizar (entornoEjemplo (\<lambda>_. Throws errorTimeout)) cuerpoEjemplo)) = 1"
proof -
  let ?env = "entornoEjemplo (\<lambda>_. Throws errorTimeout)"
  let ?doc = "\<lparr>conversacion = Some unMensaje\<rparr>"
  have st: "classifierStatus (clasificar (callClassifier ?env) (jsonParse ?env) (acData ?env)
      (case conversacion ?doc of Some c \<Rightarrow> c | None \<Rightarrow> [])) = FailTimeout"
    by (simp add: timeout_errorTimeout clasificar_def bloqueTry_def Let_def bloqueCatch_def
          iniciales_def entornoEjemplo_def)
  have len: "(case conversacion ?doc of Some c \<Rightarrow> length c | None \<Rightarrow> 0) = 1"
    by (simp add: unMensaje_def)
  have i: "userId cuerpoEjemplo \<noteq> []" "exerciseId cuerpoEjemplo \<noteq> []"
    "interaccionId cuerpoEjemplo \<noteq> []"
    by (simp_all add: cuerpoEjemplo_def)
  have v: "f_isValid ?env (userId cuerpoEjemplo)" "f_isValid ?env (exerciseId cuerpoEjemplo)"
    "f_isValid ?env (interaccionId cuerpoEjemplo)"
    by (simp_all add: entornoEjemplo_def)
  have f: "findById ?env (interaccionId cuerpoEjemplo) = Inr (Some ?doc)"
    by (simp add: entornoEjemplo_def)
  have s: "\<forall>d. save ?env d = Inr ()" by (simp add: entornoEjemplo_def)
  from finalizar_saves_whatever_the_classifier_does [OF i v f s]
  obtain st nuevo where
    r: "respuestaDe (finalizar ?env cuerpoEjemplo)
        = Json200 \<lparr>f_classifierStatus = st,
            saved = \<lparr>g_numMensajes = numMensajes nuevo,
                     g_analisisIA = (analisisIA nuevo \<noteq> None),
                     g_consejoIA = (consejoIA nuevo \<noteq> None),
                     g_errores = map etiqueta (errores nuevo)\<rparr>\<rparr>"
    and g: "guardados (finalizar ?env cuerpoEjemplo) = [nuevo]"
    and n: "numMensajes nuevo = (case conversacion ?doc of Some c \<Rightarrow> length c | None \<Rightarrow> 0)"
    and e: "st = classifierStatus (clasificar (callClassifier ?env) (jsonParse ?env) (acData ?env)
              (case conversacion ?doc of Some c \<Rightarrow> c | None \<Rightarrow> []))"
    and k: "st \<noteq> Ok \<longrightarrow> st \<in> {FailTimeout, FailInvalidJson, Skipped}
          \<and> analisisIA nuevo = None \<and> consejoIA nuevo = None
          \<and> map etiqueta (errores nuevo) = (if numMensajes nuevo = 0 then [] else [''AC_UNK''])"
    by blast
  from e st have s': "st = FailTimeout" by simp
  from n len have n': "numMensajes nuevo = 1" by simp
  from k s' n' have k': "analisisIA nuevo = None" "consejoIA nuevo = None"
    "map etiqueta (errores nuevo) = [''AC_UNK'']" by simp_all
  from r g s' n' k' show ?thesis by simp
qed

subsection \<open>Frequent errors\<close>

lemma fold_fold_concat:
  "fold (\<lambda>r m. fold f (g r) m) rs m0 = fold f (concat (map g rs)) m0"
  by (induction rs arbitrary: m0) simp_all

lemma map_upsert:
  assumes "\<And>v. h (f v) = f' (h v)"
  shows "map (\<lambda>(k, v). (k, h v)) (upsert k v0 f m) = upsert k (h v0) f' (map (\<lambda>(k, v). (k, h v)) m)"
  by (induction m) (auto simp: assms)

lemma upsert_counts:
  assumes "distinct ks" "l \<notin> set ks \<longrightarrow> c l = 0"
  shows "upsert l 0 Suc (map (\<lambda>k. (k, c k)) ks) = map (\<lambda>k. (k, (c(l := Suc (c l))) k)) (setAdd l ks)"
  using assms by (induction ks) (auto simp: setAdd_def)

lemma fold_upsert_counts:
  assumes "distinct ks" "\<forall>k. k \<notin> set ks \<longrightarrow> c k = 0"
  shows "fold (\<lambda>l. upsert l 0 Suc) ls (map (\<lambda>k. (k, c k)) ks)
       = map (\<lambda>k. (k, c k + count_list ls k)) (fold setAdd ls ks)"
  using assms
proof (induction ls arbitrary: ks c)
  case Nil
  then show ?case by simp
next
  case (Cons l ls)
  have d: "distinct (setAdd l ks)" using Cons.prems(1) by (simp add: setAdd_def)
  have z: "\<forall>k. k \<notin> set (setAdd l ks) \<longrightarrow> (c(l := Suc (c l))) k = 0"
    using Cons.prems(2) by (auto simp: setAdd_def)
  have "fold (\<lambda>l. upsert l 0 Suc) (l # ls) (map (\<lambda>k. (k, c k)) ks)
      = fold (\<lambda>l. upsert l 0 Suc) ls (map (\<lambda>k. (k, (c(l := Suc (c l))) k)) (setAdd l ks))"
    using Cons.prems by (simp add: upsert_counts)
  also have "\<dots> = map (\<lambda>k. (k, (c(l := Suc (c l))) k + count_list ls k)) (fold setAdd ls (setAdd l ks))"
    by (rule Cons.IH [OF d z])
  also have "\<dots> = map (\<lambda>k. (k, c k + count_list (l # ls) k)) (fold setAdd (l # ls) ks)"
    by auto
  finally show ?case .
qed

lemma recuento_fold:
  "fold (\<lambda>l. upsert l 0 Suc) ls [] = recuento ls"
  using fold_upsert_counts [of "[]" "\<lambda>_. 0" ls] by (simp add: recuento_def newSet_def)

lemma pares_contarError:
  "pares (contarError e m)
     = (if etiqueta e = [] then pares m else upsert (etiqueta e) 0 Suc (pares m))"
  unfolding pares_def contarError_def
  by (simp add: map_upsert [where h = veces and f' = Suc])

lemma pares_fold_contarError:
  "pares (fold contarError es m)
     = fold (\<lambda>l. upsert l 0 Suc) (filter (\<lambda>l. l \<noteq> []) (map etiqueta es)) (pares m)"
  by (induction es arbitrary: m) (simp_all add: pares_contarError)

lemma pares_mapaErrores: "pares (mapaErrores rs) = recuento (etiquetasDe rs)"
proof -
  have "pares (mapaErrores rs)
      = fold (\<lambda>l. upsert l 0 Suc) (etiquetasDe rs) (pares [])"
    unfolding mapaErrores_def fold_fold_concat etiquetasDe_def by (rule pares_fold_contarError)
  also have "pares [] = []" by (simp add: pares_def)
  finally show ?thesis by (simp add: recuento_fold)
qed

lemma keys_upsert:
  assumes "\<forall>p \<in> set m. etiqueta (snd p) = fst p" "etiqueta (f v0) = k"
    "\<And>x. etiqueta (f x) = etiqueta x"
  shows "\<forall>p \<in> set (upsert k v0 f m). etiqueta (snd p) = fst p"
  using assms by (induction m) (force split: if_splits)+

lemma keys_fold_contarError:
  "\<forall>p \<in> set m. etiqueta (snd p) = fst p \<Longrightarrow>
     \<forall>p \<in> set (fold contarError es m). etiqueta (snd p) = fst p"
proof (induction es arbitrary: m)
  case Nil
  then show ?case by simp
next
  case (Cons e es)
  have "\<forall>p \<in> set (contarError e m). etiqueta (snd p) = fst p"
  proof (cases "etiqueta e = []")
    case True
    then show ?thesis using Cons.prems by (simp add: contarError_def)
  next
    case False
    then show ?thesis
      unfolding contarError_def using Cons.prems by (simp, intro keys_upsert) simp_all
  qed
  then show ?case using Cons.IH by simp
qed

lemma keys_mapaErrores: "\<forall>p \<in> set (mapaErrores rs). etiqueta (snd p) = fst p"
  unfolding mapaErrores_def fold_fold_concat by (rule keys_fold_contarError) simp

lemma values_mapaErrores:
  "map (\<lambda>e. (etiqueta e, veces e)) (map snd (mapaErrores rs)) = recuento (etiquetasDe rs)"
proof -
  have "map (\<lambda>e. (etiqueta e, veces e)) (map snd (mapaErrores rs)) = pares (mapaErrores rs)"
    using keys_mapaErrores [of rs] by (auto simp: pares_def)
  then show ?thesis by (simp add: pares_mapaErrores)
qed

lemma map_insort_key:
  "map g (insort_key (\<lambda>x. f (g x)) x xs) = insort_key f (g x) (map g xs)"
  by (induction xs) simp_all

lemma map_sort_key:
  "map g (sort_key (\<lambda>x. f (g x)) xs) = sort_key f (map g xs)"
  by (induction xs) (simp_all add: map_insort_key)

lemma fold_setAdd_first:
  "fold setAdd xs acc = acc @ filter (\<lambda>y. y \<notin> set acc) (fold setAdd xs [])"
proof (induction xs arbitrary: acc)
  case Nil
  then show ?case by simp
next
  case (Cons x xs)
  have s0: "setAdd x [] = [x]" by (simp add: setAdd_def)
  have a: "fold setAdd (x # xs) [] = x # filter (\<lambda>y. y \<noteq> x) (fold setAdd xs [])"
    using Cons.IH [of "[x]"] by (simp add: s0)
  show ?case
  proof (cases "x \<in> set acc")
    case True
    then have s1: "setAdd x acc = acc" by (simp add: setAdd_def)
    have "filter (\<lambda>y. y \<notin> set acc) (fold setAdd (x # xs) [])
        = filter (\<lambda>y. y \<notin> set acc) (fold setAdd xs [])"
      unfolding a using True by (auto intro: filter_cong)
    moreover have "fold setAdd (x # xs) acc = acc @ filter (\<lambda>y. y \<notin> set acc) (fold setAdd xs [])"
      using Cons.IH [of acc] by (simp add: s1)
    ultimately show ?thesis by simp
  next
    case False
    then have s2: "setAdd x acc = acc @ [x]" by (simp add: setAdd_def)
    have "filter (\<lambda>y. y \<notin> set acc) (fold setAdd (x # xs) [])
        = x # filter (\<lambda>y. y \<notin> set (acc @ [x])) (fold setAdd xs [])"
      unfolding a using False by (auto intro: filter_cong)
    moreover have "fold setAdd (x # xs) acc
        = (acc @ [x]) @ filter (\<lambda>y. y \<notin> set (acc @ [x])) (fold setAdd xs [])"
      using Cons.IH [of "acc @ [x]"] by (simp add: s2)
    ultimately show ?thesis by simp
  qed
qed

lemma newSet_Cons: "newSet (x # xs) = x # filter (\<lambda>y. y \<noteq> x) (newSet xs)"
  using fold_setAdd_first [of xs "[x]"] by (simp add: newSet_def setAdd_def)

lemma erroresFrecuentes_pairs:
  "map (\<lambda>e. (etiqueta e, veces e)) (erroresFrecuentes rs)
     = take 3 (sort_key (\<lambda>(l, n). - int n) (recuento (etiquetasDe rs)))"
proof -
  have "map (\<lambda>e. (etiqueta e, veces e)) (sort_key (\<lambda>e. - int (veces e)) (map snd (mapaErrores rs)))
      = sort_key (\<lambda>(l, n). - int n) (map (\<lambda>e. (etiqueta e, veces e)) (map snd (mapaErrores rs)))"
    using map_sort_key [of "\<lambda>e. (etiqueta e, veces e)" "\<lambda>(l, n). - int n" "map snd (mapaErrores rs)"]
    by simp
  then have "map (\<lambda>e. (etiqueta e, veces e)) (sort_key (\<lambda>e. - int (veces e)) (map snd (mapaErrores rs)))
      = sort_key (\<lambda>(l, n). - int n) (recuento (etiquetasDe rs))"
    by (simp only: values_mapaErrores)
  then have "take 3 (map (\<lambda>e. (etiqueta e, veces e))
        (sort_key (\<lambda>e. - int (veces e)) (map snd (mapaErrores rs))))
      = take 3 (sort_key (\<lambda>(l, n). - int n) (recuento (etiquetasDe rs)))"
    by (rule arg_cong)
  then show ?thesis
    unfolding erroresFrecuentes_def take_map .
qed

lemma erroresFrecuentes_ejemplo:
  "recuento (etiquetasDe resultadosEjemplo)
     = [(''AC1'', 5), (''AC2'', 5), (''AC3'', 3), (''AC4'', 9)]
   \<and> map (\<lambda>e. (etiqueta e, veces e)) (erroresFrecuentes resultadosEjemplo)
     = [(''AC4'', 9), (''AC1'', 5), (''AC2'', 5)]"
proof -
  have m: "map snd (mapaErrores resultadosEjemplo)
      = [\<lparr>etiqueta = ''AC1'', texto = ''AC1'', veces = 5\<rparr>,
         \<lparr>etiqueta = ''AC2'', texto = ''AC2'', veces = 5\<rparr>,
         \<lparr>etiqueta = ''AC3'', texto = ''AC3'', veces = 3\<rparr>,
         \<lparr>etiqueta = ''AC4'', texto = ''AC4'', veces = 9\<rparr>]"
    by (simp add: mapaErrores_def resultadosEjemplo_def resultadoDe_def tag_def contarError_def
          orElse_def numeral_3_eq_3 numeral_2_eq_2)
  have r: "recuento (etiquetasDe resultadosEjemplo)
      = [(''AC1'', 5), (''AC2'', 5), (''AC3'', 3), (''AC4'', 9)]"
    using values_mapaErrores [of resultadosEjemplo] unfolding m by simp
  have e: "map (\<lambda>e. (etiqueta e, veces e)) (erroresFrecuentes resultadosEjemplo)
      = [(''AC4'', 9), (''AC1'', 5), (''AC2'', 5)]"
    unfolding erroresFrecuentes_def m by simp
  from r e show ?thesis by blast
qed

text \<open>
  C7. The frequent errors, read as pairs of label and count, are the first three of the
  stable sort by falling count of the counts of the labels of all tags of all results,
  the labels taken in the order in which they are first met. So there are at most three
  (three, or as many as there are labels), their counts fall, the sorted list holds
  each label with its number of occurrences, the entries of any one count \<open>k\<close> keep
  their first-met order, and that order puts a label before every later different one.
  The example of the claim gives AC4, then AC1, then AC2.
\<close>

theorem frequent_errors:
  "map (\<lambda>e. (etiqueta e, veces e)) (erroresFrecuentes rs)
     = take 3 (sort_key (\<lambda>(l, n). - int n) (recuento (etiquetasDe rs)))
   \<and> length (erroresFrecuentes rs) = min 3 (card (set (etiquetasDe rs)))
   \<and> sorted_wrt (\<ge>) (map veces (erroresFrecuentes rs))
   \<and> set (sort_key (\<lambda>(l, n). - int n) (recuento (etiquetasDe rs)))
       = {(l, count_list (etiquetasDe rs) l) | l. l \<in> set (etiquetasDe rs)}
   \<and> filter (\<lambda>(l, n). n = k) (sort_key (\<lambda>(l, n). - int n) (recuento (etiquetasDe rs)))
       = filter (\<lambda>(l, n). n = k) (recuento (etiquetasDe rs))
   \<and> map fst (recuento (x # xs)) = x # filter (\<lambda>y. y \<noteq> x) (map fst (recuento xs))
   \<and> recuento (etiquetasDe resultadosEjemplo)
       = [(''AC1'', 5), (''AC2'', 5), (''AC3'', 3), (''AC4'', 9)]
   \<and> map (\<lambda>e. (etiqueta e, veces e)) (erroresFrecuentes resultadosEjemplo)
       = [(''AC4'', 9), (''AC1'', 5), (''AC2'', 5)]"
proof -
  let ?ls = "etiquetasDe rs"
  let ?all = "sort_key (\<lambda>(l, n). - int n) (recuento ?ls)"
  have 1: "map (\<lambda>e. (etiqueta e, veces e)) (erroresFrecuentes rs) = take 3 ?all"
    by (rule erroresFrecuentes_pairs)
  have "length (erroresFrecuentes rs) = length (take 3 ?all)"
    using arg_cong [OF 1, of length] by simp
  then have 2: "length (erroresFrecuentes rs) = min 3 (card (set ?ls))"
    by (simp add: recuento_def length_newSet min.commute)
  have "sorted (map (\<lambda>e. - int (veces e)) (sort_key (\<lambda>e. - int (veces e)) (map snd (mapaErrores rs))))"
    by (rule sorted_sort_key)
  then have "sorted_wrt (\<ge>) (map veces (sort_key (\<lambda>e. - int (veces e)) (map snd (mapaErrores rs))))"
    by (simp add: sorted_wrt_map)
  then have 3: "sorted_wrt (\<ge>) (map veces (erroresFrecuentes rs))"
    unfolding erroresFrecuentes_def take_map [symmetric] by (rule sorted_wrt_take)
  have 4: "set ?all = {(l, count_list ?ls l) | l. l \<in> set ?ls}"
    by (auto simp: recuento_def set_newSet)
  have 5: "filter (\<lambda>(l, n). n = k) ?all = filter (\<lambda>(l, n). n = k) (recuento ?ls)"
  proof -
    have f: "(\<lambda>y. (case y of (l, n) \<Rightarrow> - int n) = - int k) = (\<lambda>(l, n). n = k)"
      by auto
    from sort_key_stable [of "\<lambda>(l, n). - int n" "- int k" "recuento ?ls"]
    show ?thesis unfolding f .
  qed
  have 6: "map fst (recuento (x # xs)) = x # filter (\<lambda>y. y \<noteq> x) (map fst (recuento xs))"
    by (simp add: recuento_def o_def newSet_Cons)
  from 1 2 3 4 5 6 erroresFrecuentes_ejemplo show ?thesis by blast
qed

subsection \<open>The recommendation\<close>

lemma hasRealErrors_iff:
  "hasRealErrors efs \<longleftrightarrow> (\<exists>e \<in> set efs. etiqueta e \<noteq> [] \<and> etiqueta e \<noteq> ''AC_UNK'')"
  by (simp add: hasRealErrors_def list_ex_iff)

lemma peor_first_maximum:
  assumes "items \<noteq> []"
  shows "\<exists>pre post. items = pre @ peor items # post
           \<and> (\<forall>q \<in> set pre. interacciones q < interacciones (peor items))
           \<and> (\<forall>q \<in> set items. interacciones q \<le> interacciones (peor items))"
proof -
  let ?f = "\<lambda>e. - interacciones e"
  let ?ys = "sort_key ?f items"
  from assms have "?ys \<noteq> []" by (metis length_sort length_0_conv)
  then obtain p ys' where ys: "?ys = p # ys'" by (cases ?ys) auto
  then have p: "peor items = p" by (simp add: peor_def)
  have "sorted (map ?f ?ys)" by (rule sorted_sort_key)
  then have "\<forall>y \<in> set ?ys. ?f p \<le> ?f y" unfolding ys by auto
  then have le: "\<forall>q \<in> set items. interacciones q \<le> interacciones p" by simp
  have "filter (\<lambda>y. ?f y = ?f p) ?ys = filter (\<lambda>y. ?f y = ?f p) items"
    by (rule sort_key_stable)
  then have "filter (\<lambda>y. ?f y = ?f p) items = p # filter (\<lambda>y. ?f y = ?f p) ys'"
    unfolding ys by simp
  then obtain us vs where uv: "items = us @ p # vs" "\<forall>u \<in> set us. ?f u \<noteq> ?f p"
    unfolding filter_eq_Cons_iff by blast
  have "\<forall>q \<in> set us. interacciones q < interacciones p"
  proof
    fix q assume q: "q \<in> set us"
    then have "q \<in> set items" using uv(1) by simp
    with le have "interacciones q \<le> interacciones p" by blast
    moreover from q uv(2) have "interacciones q \<noteq> interacciones p" by auto
    ultimately show "interacciones q < interacciones p" by simp
  qed
  with uv(1) le show ?thesis unfolding p by blast
qed

lemma upsert_fun:
  assumes "distinct ks" "l \<notin> set ks \<longrightarrow> c l = v0"
  shows "upsert l v0 f (map (\<lambda>k. (k, c k)) ks) = map (\<lambda>k. (k, (c(l := f (c l))) k)) (setAdd l ks)"
  using assms by (induction ks) (auto simp: setAdd_def)

lemma fold_upsert_fun:
  assumes "distinct ks" "\<forall>k. k \<notin> set ks \<longrightarrow> c k = v0"
  shows "fold (\<lambda>x. upsert (key x) v0 (step x)) xs (map (\<lambda>k. (k, c k)) ks)
       = map (\<lambda>k. (k, fold step (filter (\<lambda>x. key x = k) xs) (c k))) (fold setAdd (map key xs) ks)"
  using assms
proof (induction xs arbitrary: ks c)
  case Nil
  then show ?case by simp
next
  case (Cons x xs)
  let ?c = "c(key x := step x (c (key x)))"
  have d: "distinct (setAdd (key x) ks)" using Cons.prems(1) by (simp add: setAdd_def)
  have z: "\<forall>k. k \<notin> set (setAdd (key x) ks) \<longrightarrow> ?c k = v0"
    using Cons.prems(2) by (auto simp: setAdd_def)
  have "fold (\<lambda>x. upsert (key x) v0 (step x)) (x # xs) (map (\<lambda>k. (k, c k)) ks)
      = fold (\<lambda>x. upsert (key x) v0 (step x)) xs (map (\<lambda>k. (k, ?c k)) (setAdd (key x) ks))"
    using Cons.prems by (simp add: upsert_fun)
  also have "\<dots> = map (\<lambda>k. (k, fold step (filter (\<lambda>x. key x = k) xs) (?c k)))
                     (fold setAdd (map key xs) (setAdd (key x) ks))"
    by (rule Cons.IH [OF d z])
  also have "\<dots> = map (\<lambda>k. (k, fold step (filter (\<lambda>y. key y = k) (x # xs)) (c k)))
                     (fold setAdd (map key (x # xs)) ks)"
    by auto
  finally show ?case .
qed

lemma fold_eficienciaPaso:
  "fold eficienciaPaso rs m
     = fold (\<lambda>r. upsert (conceptoDe (ejercicio_id r)) (0, 0)
                (\<lambda>(total, count). (total + numMensajes r, count + 1)))
         (filter (\<lambda>r. conceptoDe (ejercicio_id r) \<noteq> []) rs) m"
  by (induction rs arbitrary: m) (simp_all add: eficienciaPaso_def Let_def)

lemma fold_total_Suc:
  "fold (\<lambda>r (total, count). (total + numMensajes r, Suc count)) rs (t, n)
     = (t + sum_list (map numMensajes rs), n + length rs)"
  by (induction rs arbitrary: t n) simp_all

lemma eficiencia_by_concept:
  "eficiencia rs
     = map (\<lambda>c. (c, sum_list (map numMensajes (deConcepto c rs)), length (deConcepto c rs)))
         (newSet (conceptosDe rs))"
proof -
  let ?key = "\<lambda>r. conceptoDe (ejercicio_id r)"
  let ?rs = "filter (\<lambda>r. ?key r \<noteq> []) rs"
  have k: "map ?key ?rs = conceptosDe rs"
    by (simp add: conceptosDe_def filter_map o_def)
  have "eficiencia rs
      = fold (\<lambda>r. upsert (?key r) (0, 0) (\<lambda>(total, count). (total + numMensajes r, count + 1)))
          ?rs (map (\<lambda>k. (k, (0, 0))) [])"
    by (simp add: eficiencia_def fold_eficienciaPaso)
  also have "\<dots> = map (\<lambda>k. (k, fold (\<lambda>r (total, count). (total + numMensajes r, count + 1))
                       (filter (\<lambda>r. ?key r = k) ?rs) (0, 0)))
                     (fold setAdd (map ?key ?rs) [])"
    by (rule fold_upsert_fun) simp_all
  also have "\<dots> = map (\<lambda>c. (c, sum_list (map numMensajes (deConcepto c rs)), length (deConcepto c rs)))
         (newSet (conceptosDe rs))"
  proof -
    have "filter (\<lambda>r. ?key r = c) ?rs = deConcepto c rs" if "c \<in> set (conceptosDe rs)" for c
    proof -
      from that have "c \<noteq> []" by (simp add: conceptosDe_def)
      then show ?thesis by (auto simp: deConcepto_def intro: filter_cong)
    qed
    then show ?thesis
      unfolding k newSet_def [symmetric]
      by (intro map_cong) (simp_all add: fold_total_Suc set_newSet)
  qed
  finally show ?thesis .
qed

lemma eficienciaPorConcepto_means:
  "eficienciaPorConcepto rs
     = map (\<lambda>c. \<lparr>ef_concepto = c, interacciones = media (deConcepto c rs)\<rparr>)
         (newSet (conceptosDe rs))"
  by (simp add: eficienciaPorConcepto_def eficiencia_by_concept media_def o_def)

lemma recomendar_failure:
  "recomendar lookup ultimo efs items = Inl r \<Longrightarrow> \<exists>c. lookup c = Inl r"
  by (auto simp: recomendar_def Let_def split: if_splits sum.splits option.splits)

text \<open>
  C9, as the code has it. There are real errors exactly when a frequent error has a
  label other than \<open>AC_UNK\<close>. With real errors and a concept of the most recent
  session, the recommendation is for that concept: the exercise found, with the motive
  that names the errors, or no exercise and the concept when none is found; with real
  errors and no such concept it is the initial, generic one. Without real errors and
  with per-concept means, it is for the first concept among those of the highest mean,
  with the same two cases; without either it is the initial one. The recommendation
  fails only when the lookup itself fails, never because nothing is found. The mean of
  a concept is the mean number of messages of its results, the concepts in the order
  in which they are first met, and the route answers with the recommendation so chosen
  (the initial one for a learner without results).
\<close>

theorem recommendation_policy:
  "(hasRealErrors efs \<longleftrightarrow> (\<exists>e \<in> set efs. etiqueta e \<noteq> [] \<and> etiqueta e \<noteq> ''AC_UNK''))
   \<and> (hasRealErrors efs \<and> conceptoDe (ejercicio_id ultimo) \<noteq> []
        \<and> lookup (conceptoDe (ejercicio_id ultimo)) = Inr (Some ej) \<longrightarrow>
       recomendar lookup ultimo efs items
         = Inr \<lparr>rec_titulo = orElse (ej_titulo ej) ''Ejercicio recomendado'',
                motivo = motivoErrores,
                ejercicioId = Some (ej_id ej),
                rec_concepto = orElse (ej_concepto ej) (conceptoDe (ejercicio_id ultimo))\<rparr>)
   \<and> (hasRealErrors efs \<and> conceptoDe (ejercicio_id ultimo) \<noteq> []
        \<and> lookup (conceptoDe (ejercicio_id ultimo)) = Inr None \<longrightarrow>
       recomendar lookup ultimo efs items
         = Inr \<lparr>rec_titulo = tituloRecomendacion,
                motivo = motivoRevisa,
                ejercicioId = None,
                rec_concepto = conceptoDe (ejercicio_id ultimo)\<rparr>)
   \<and> (hasRealErrors efs \<and> conceptoDe (ejercicio_id ultimo) = [] \<longrightarrow>
       recomendar lookup ultimo efs items = Inr recomendacionInicial)
   \<and> (\<not> hasRealErrors efs \<and> items \<noteq> [] \<longrightarrow>
       (\<exists>pre post. items = pre @ peor items # post
          \<and> (\<forall>q \<in> set pre. interacciones q < interacciones (peor items))
          \<and> (\<forall>q \<in> set items. interacciones q \<le> interacciones (peor items)))
       \<and> (lookup (ef_concepto (peor items)) = Inr (Some ej) \<longrightarrow>
           recomendar lookup ultimo efs items
             = Inr \<lparr>rec_titulo = orElse (ej_titulo ej) ''Ejercicio recomendado'',
                    motivo = motivoReforzar,
                    ejercicioId = Some (ej_id ej),
                    rec_concepto = orElse (ej_concepto ej) (ef_concepto (peor items))\<rparr>)
       \<and> (lookup (ef_concepto (peor items)) = Inr None \<longrightarrow>
           recomendar lookup ultimo efs items
             = Inr \<lparr>rec_titulo = tituloRecomendacion,
                    motivo = motivoRefuerza (ef_concepto (peor items)),
                    ejercicioId = None,
                    rec_concepto = ef_concepto (peor items)\<rparr>))
   \<and> (\<not> hasRealErrors efs \<and> items = [] \<longrightarrow>
       recomendar lookup ultimo efs items = Inr recomendacionInicial)
   \<and> (recomendar lookup ultimo efs items = Inl r \<longrightarrow> (\<exists>c. lookup c = Inl r))
   \<and> eficienciaPorConcepto rs
       = map (\<lambda>c. \<lparr>ef_concepto = c, interacciones = media (deConcepto c rs)\<rparr>)
           (newSet (conceptosDe rs))
   \<and> (isValid env uid \<and> find env uid = Inr (u # resto)
        \<and> recomendar (findOne env) u (erroresFrecuentes (u # resto))
             (eficienciaPorConcepto (u # resto)) = Inr rec \<longrightarrow>
       (\<exists>p. getProgreso env uid = Json200 p \<and> p_recomendacion p = rec
          \<and> p_erroresFrecuentes p = erroresFrecuentes (u # resto)
          \<and> p_eficienciaPorConcepto p = eficienciaPorConcepto (u # resto)))
   \<and> (isValid env uid \<and> find env uid = Inr [] \<longrightarrow>
       (\<exists>p. getProgreso env uid = Json200 p \<and> p_recomendacion p = recomendacionInicial))"
proof -
  have 1: "hasRealErrors efs \<longleftrightarrow> (\<exists>e \<in> set efs. etiqueta e \<noteq> [] \<and> etiqueta e \<noteq> ''AC_UNK'')"
    by (rule hasRealErrors_iff)
  have 2: "hasRealErrors efs \<and> conceptoDe (ejercicio_id ultimo) \<noteq> []
        \<and> lookup (conceptoDe (ejercicio_id ultimo)) = Inr (Some ej) \<longrightarrow>
       recomendar lookup ultimo efs items
         = Inr \<lparr>rec_titulo = orElse (ej_titulo ej) ''Ejercicio recomendado'',
                motivo = motivoErrores,
                ejercicioId = Some (ej_id ej),
                rec_concepto = orElse (ej_concepto ej) (conceptoDe (ejercicio_id ultimo))\<rparr>"
    by (simp add: recomendar_def Let_def)
  have 3: "hasRealErrors efs \<and> conceptoDe (ejercicio_id ultimo) \<noteq> []
        \<and> lookup (conceptoDe (ejercicio_id ultimo)) = Inr None \<longrightarrow>
       recomendar lookup ultimo efs items
         = Inr \<lparr>rec_titulo = tituloRecomendacion,
                motivo = motivoRevisa,
                ejercicioId = None,
                rec_concepto = conceptoDe (ejercicio_id ultimo)\<rparr>"
    by (simp add: recomendar_def Let_def)
  have 4: "hasRealErrors efs \<and> conceptoDe (ejercicio_id ultimo) = [] \<longrightarrow>
       recomendar lookup ultimo efs items = Inr recomendacionInicial"
    by (simp add: recomendar_def Let_def)
  have 5: "\<not> hasRealErrors efs \<and> items \<noteq> [] \<longrightarrow>
       (\<exists>pre post. items = pre @ peor items # post
          \<and> (\<forall>q \<in> set pre. interacciones q < interacciones (peor items))
          \<and> (\<forall>q \<in> set items. interacciones q \<le> interacciones (peor items)))
       \<and> (lookup (ef_concepto (peor items)) = Inr (Some ej) \<longrightarrow>
           recomendar lookup ultimo efs items
             = Inr \<lparr>rec_titulo = orElse (ej_titulo ej) ''Ejercicio recomendado'',
                    motivo = motivoReforzar,
                    ejercicioId = Some (ej_id ej),
                    rec_concepto = orElse (ej_concepto ej) (ef_concepto (peor items))\<rparr>)
       \<and> (lookup (ef_concepto (peor items)) = Inr None \<longrightarrow>
           recomendar lookup ultimo efs items
             = Inr \<lparr>rec_titulo = tituloRecomendacion,
                    motivo = motivoRefuerza (ef_concepto (peor items)),
                    ejercicioId = None,
                    rec_concepto = ef_concepto (peor items)\<rparr>)"
    using peor_first_maximum [of items] by (simp add: recomendar_def Let_def)
  have 6: "\<not> hasRealErrors efs \<and> items = [] \<longrightarrow>
       recomendar lookup ultimo efs items = Inr recomendacionInicial"
    by (simp add: recomendar_def)
  have 7: "recomendar lookup ultimo efs items = Inl r \<longrightarrow> (\<exists>c. lookup c = Inl r)"
    using recomendar_failure [of lookup ultimo efs items r] by blast
  have 8: "isValid env uid \<and> find env uid = Inr (u # resto)
        \<and> recomendar (findOne env) u (erroresFrecuentes (u # resto))
             (eficienciaPorConcepto (u # resto)) = Inr rec \<longrightarrow>
       (\<exists>p. getProgreso env uid = Json200 p \<and> p_recomendacion p = rec
          \<and> p_erroresFrecuentes p = erroresFrecuentes (u # resto)
          \<and> p_eficienciaPorConcepto p = eficienciaPorConcepto (u # resto))"
    by (simp add: getProgreso_def Let_def)
  have 9: "isValid env uid \<and> find env uid = Inr [] \<longrightarrow>
       (\<exists>p. getProgreso env uid = Json200 p \<and> p_recomendacion p = recomendacionInicial)"
    by (simp add: getProgreso_def bienvenida_def)
  from 1 2 3 4 5 6 7 8 9 eficienciaPorConcepto_means [of rs] show ?thesis by blast
qed

text \<open>
  C9 as stated fails: the learner's one result has the tag AC13 and its exercise no
  longer exists, so there are real errors and the most recent session has no concept;
  the route answers with the initial recommendation, whose motive is neither of the two
  of the errors branch.
\<close>

theorem real_errors_without_concept:
  "hasRealErrors (erroresFrecuentes [resultadoDe NoRef [tag ''AC13''] (Some 1711965600000) None None])
   \<and> (case getProgreso
             (entornoProgresoEjemplo
                [resultadoDe NoRef [tag ''AC13''] (Some 1711965600000) None None]) ''u1'' of
         Json200 p \<Rightarrow>
           map etiqueta (p_erroresFrecuentes p) = [''AC13'']
           \<and> p_recomendacion p = recomendacionInicial
           \<and> motivo (p_recomendacion p) \<noteq> motivoErrores
           \<and> motivo (p_recomendacion p) \<noteq> motivoRevisa
       | Rechazo n \<Rightarrow> False)"
proof -
  let ?R = "resultadoDe NoRef [tag ''AC13''] (Some 1711965600000) None None"
  have e: "erroresFrecuentes [?R] = [\<lparr>etiqueta = ''AC13'', texto = ''AC13'', veces = 1\<rparr>]"
    by (simp add: erroresFrecuentes_def mapaErrores_def resultadoDe_def tag_def contarError_def
          orElse_def)
  have h: "hasRealErrors (erroresFrecuentes [?R])"
    unfolding e by (simp add: hasRealErrors_def)
  have l: "map etiqueta (erroresFrecuentes [?R]) = [''AC13'']"
    unfolding e by simp
  have c: "conceptoDe (ejercicio_id ?R) = []"
    by (simp add: resultadoDe_def conceptoDe_def)
  have r: "recomendar (\<lambda>_. Inr (Some leyDeOhm)) ?R (erroresFrecuentes [?R])
        (eficienciaPorConcepto [?R]) = Inr recomendacionInicial"
    using h c by (simp add: recomendar_def)
  have m: "motivo recomendacionInicial \<noteq> motivoErrores"
    "motivo recomendacionInicial \<noteq> motivoRevisa"
    by (simp_all add: recomendacionInicial_def motivoErrores_def motivoRevisa_def)
  have g: "\<exists>p. getProgreso (entornoProgresoEjemplo [?R]) ''u1'' = Json200 p
      \<and> p_recomendacion p = recomendacionInicial
      \<and> p_erroresFrecuentes p = erroresFrecuentes [?R]"
    using r by (simp add: getProgreso_def entornoProgresoEjemplo_def Let_def)
  then obtain p where p: "getProgreso (entornoProgresoEjemplo [?R]) ''u1'' = Json200 p"
    "p_recomendacion p = recomendacionInicial" "p_erroresFrecuentes p = erroresFrecuentes [?R]"
    by blast
  show ?thesis
    unfolding p(1) using h l m p(2,3) by simp
qed

text \<open>
  The cases of C9 at concrete inputs: real errors (AC13, five times) with an exercise
  found, with none found, and with a last session without concept; only \<open>AC_UNK\<close>, so
  the concept of the highest mean (the first of the two that tie), with an exercise
  found and with none; and neither errors nor concepts.
\<close>

theorem recommendation_policy_witness:
  "recomendar (\<lambda>_. Inr (Some leyDeOhm)) (resultadoDe (Populated leyDeOhm) [] None None None)
      [frecuente ''AC13'' 5] itemsEjemplo
     = Inr \<lparr>rec_titulo = ''Divisor'', motivo = motivoErrores, ejercicioId = Some ''e1'',
            rec_concepto = ''Ley de Ohm''\<rparr>
   \<and> recomendar (\<lambda>_. Inr None) (resultadoDe (Populated leyDeOhm) [] None None None)
      [frecuente ''AC13'' 5] itemsEjemplo
     = Inr \<lparr>rec_titulo = tituloRecomendacion, motivo = motivoRevisa, ejercicioId = None,
            rec_concepto = ''Ley de Ohm''\<rparr>
   \<and> recomendar (\<lambda>_. Inr None) (resultadoDe NoRef [] None None None)
      [frecuente ''AC13'' 5] itemsEjemplo
     = Inr recomendacionInicial
   \<and> recomendar buscarEjemplo (resultadoDe (Populated leyDeOhm) [] None None None)
      [frecuente ''AC_UNK'' 5] itemsEjemplo
     = Inr \<lparr>rec_titulo = ''Mallas'', motivo = motivoReforzar, ejercicioId = Some ''e2'',
            rec_concepto = ''Kirchhoff''\<rparr>
   \<and> recomendar (\<lambda>_. Inr None) (resultadoDe (Populated leyDeOhm) [] None None None)
      [frecuente ''AC_UNK'' 5] itemsEjemplo
     = Inr \<lparr>rec_titulo = tituloRecomendacion, motivo = motivoRefuerza ''Kirchhoff'',
            ejercicioId = None, rec_concepto = ''Kirchhoff''\<rparr>
   \<and> recomendar (\<lambda>_. Inr None) (resultadoDe (Populated leyDeOhm) [] None None None) [] []
     = Inr recomendacionInicial"
proof -
  let ?u = "resultadoDe (Populated leyDeOhm) [] None None None"
  have c: "conceptoDe (ejercicio_id ?u) = ''Ley de Ohm''"
    by (simp add: resultadoDe_def conceptoDe_def leyDeOhm_def)
  have n: "conceptoDe (ejercicio_id (resultadoDe NoRef [] None None None)) = []"
    by (simp add: resultadoDe_def conceptoDe_def)
  have h: "hasRealErrors [frecuente ''AC13'' 5]" "\<not> hasRealErrors [frecuente ''AC_UNK'' 5]"
    "\<not> hasRealErrors []"
    by (simp_all add: hasRealErrors_def frecuente_def)
  have p: "ef_concepto (peor itemsEjemplo) = ''Kirchhoff''"
    by (simp add: peor_def itemsEjemplo_def)
  have i: "itemsEjemplo \<noteq> []" by (simp add: itemsEjemplo_def)
  have 1: "recomendar (\<lambda>_. Inr (Some leyDeOhm)) ?u [frecuente ''AC13'' 5] itemsEjemplo
     = Inr \<lparr>rec_titulo = ''Divisor'', motivo = motivoErrores, ejercicioId = Some ''e1'',
            rec_concepto = ''Ley de Ohm''\<rparr>"
    using recommendation_policy [where efs = "[frecuente ''AC13'' 5]" and ultimo = ?u
        and lookup = "\<lambda>_. Inr (Some leyDeOhm)" and ej = leyDeOhm and items = itemsEjemplo] h c
    by (simp add: leyDeOhm_def orElse_def)
  have 2: "recomendar (\<lambda>_. Inr None) ?u [frecuente ''AC13'' 5] itemsEjemplo
     = Inr \<lparr>rec_titulo = tituloRecomendacion, motivo = motivoRevisa, ejercicioId = None,
            rec_concepto = ''Ley de Ohm''\<rparr>"
    using recommendation_policy [where efs = "[frecuente ''AC13'' 5]" and ultimo = ?u
        and lookup = "\<lambda>_. Inr None" and items = itemsEjemplo] h c
    by simp
  have 3: "recomendar (\<lambda>_. Inr None) (resultadoDe NoRef [] None None None)
      [frecuente ''AC13'' 5] itemsEjemplo = Inr recomendacionInicial"
    using recommendation_policy [where efs = "[frecuente ''AC13'' 5]"
        and ultimo = "resultadoDe NoRef [] None None None"
        and lookup = "\<lambda>_. Inr None" and items = itemsEjemplo] h n
    by simp
  have 4: "recomendar buscarEjemplo ?u [frecuente ''AC_UNK'' 5] itemsEjemplo
     = Inr \<lparr>rec_titulo = ''Mallas'', motivo = motivoReforzar, ejercicioId = Some ''e2'',
            rec_concepto = ''Kirchhoff''\<rparr>"
    using recommendation_policy [where efs = "[frecuente ''AC_UNK'' 5]" and ultimo = ?u
        and lookup = buscarEjemplo and items = itemsEjemplo
        and ej = "\<lparr>ej_id = ''e2'', ej_titulo = ''Mallas'', ej_concepto = ''Kirchhoff''\<rparr>"] h i p
    by (simp add: buscarEjemplo_def orElse_def)
  have 5: "recomendar (\<lambda>_. Inr None) ?u [frecuente ''AC_UNK'' 5] itemsEjemplo
     = Inr \<lparr>rec_titulo = tituloRecomendacion, motivo = motivoRefuerza ''Kirchhoff'',
            ejercicioId = None, rec_concepto = ''Kirchhoff''\<rparr>"
    using recommendation_policy [where efs = "[frecuente ''AC_UNK'' 5]" and ultimo = ?u
        and lookup = "\<lambda>_. Inr None" and items = itemsEjemplo] h i p
    by simp
  have 6: "recomendar (\<lambda>_. Inr None) ?u [] [] = Inr recomendacionInicial"
    using recommendation_policy [where efs = "[]" and ultimo = ?u
        and lookup = "\<lambda>_. Inr None" and items = "[]"] h
    by simp
  from 1 2 3 4 5 6 show ?thesis by blast
qed

end
